theory Spec2Isabelle
  imports Main "HOL-Library.Multiset"
begin

section \<open>Values and documents\<close>

text \<open>
  The server (\<^verbatim>\<open>server.js\<close>) is a set of Express handlers over three Mongoose
  collections: \<^verbatim>\<open>User\<close>, \<^verbatim>\<open>OnlineUsers\<close> and \<^verbatim>\<open>MessageQueue\<close>. A handler is
  modelled as a function from the state of the collections to a response and the new
  state. A \<^verbatim>\<open>Date\<close> is its number of milliseconds since the epoch; every
  \<^verbatim>\<open>new Date()\<close> of one handler run reads the same clock value \<open>now\<close>.
  The collections are in memory here: a database call that throws (a lost connection,
  which every handler answers with 500 from its catch-all) is outside the model.
\<close>

type_synonym timestamp = int

text \<open>
  A field of a request body that may be missing is a \<open>string option\<close>; JavaScript's
  \<^verbatim>\<open>!x\<close> on it is \<open>\<not> truthy x\<close>: \<^verbatim>\<open>undefined\<close> and the empty string are falsy.
\<close>

fun truthy :: "string option \<Rightarrow> bool" where
  "truthy None = False"
| "truthy (Some s) = (s \<noteq> [])"

text \<open>A document of the \<^verbatim>\<open>User\<close> collection, as \<^verbatim>\<open>/register\<close> saves it.\<close>

record user =
  username :: string
  email :: string
  password :: string
  peerId :: string

text \<open>
  A document of the \<^verbatim>\<open>OnlineUsers\<close> collection, with the fields the handlers write:
  \<^verbatim>\<open>peerId\<close>, \<^verbatim>\<open>username\<close>, \<^verbatim>\<open>email\<close>, \<^verbatim>\<open>status\<close> (the string "online" or
  "offline") and \<^verbatim>\<open>lastSeen\<close>. The prefix \<open>ou_\<close> keeps the three names shared with
  \<open>user\<close> apart.
\<close>

datatype presence = Online | Offline

record online_user =
  ou_peerId :: string
  ou_username :: "string option"
  ou_email :: "string option"
  status :: presence
  lastSeen :: timestamp

text \<open>
  A document of the \<^verbatim>\<open>MessageQueue\<close> collection, with the fields the handlers
  pass, query and update. \<open>msg_id\<close> is Mongoose's \<^verbatim>\<open>_id\<close> and \<open>msg_status\<close> the
  field \<^verbatim>\<open>status\<close> (the string "ready" or "delivered"); \<open>createdAt\<close> is the
  created-at of the spec's data model.
\<close>

datatype delivery = Ready | Delivered

record message =
  msg_id :: nat
  senderPeerId :: string
  senderUsername :: string
  receiverPeerId :: string
  ipfsHash :: string
  fileName :: string
  fileSize :: nat
  msg_status :: delivery
  createdAt :: timestamp
  readyAt :: timestamp
  deliveredAt :: "timestamp option"

text \<open>What \<^verbatim>\<open>axios.post\<close> to Pinata gives back: it throws, or it returns a response
  whose \<^verbatim>\<open>data\<close> may be missing and may lack \<^verbatim>\<open>IpfsHash\<close>.\<close>

datatype axios_result =
    AxiosError string
  | AxiosResponse "string option option"

text \<open>
  The state the handlers read and write: the three collections, the files of the
  \<^verbatim>\<open>uploads\<close> directory (where multer puts the received file), every request that was
  sent to Pinata with the reply it got, and the one console note whose only input is the
  receiver's presence.
\<close>

record state =
  users :: "user list"
  onlineUsers :: "online_user list"
  messageQueue :: "message list"
  uploads :: "string list"
  pinata_posts :: "(string \<times> axios_result) list"
  console :: "string list"

section \<open>Responses\<close>

datatype body =
    Error string
  | MissingFields "string option" "string option" "string option"
  | UserStatus bool "timestamp option" string
  | Queued string string
  | PendingMessages nat "message list"
  | Success
  | SuccessMessage string
  | SuccessOnlineUser online_user

type_synonym response = "nat \<times> body"

section \<open>The Mongoose calls the handlers use\<close>

text \<open>\<^verbatim>\<open>Model.findOne(filter)\<close>: the first document that matches, or \<^verbatim>\<open>null\<close>.\<close>

definition findOne :: "('a \<Rightarrow> bool) \<Rightarrow> 'a list \<Rightarrow> 'a option" where
  "findOne P docs = List.find P docs"

text \<open>
  \<^verbatim>\<open>Model.findOneAndUpdate(filter, update)\<close> without \<^verbatim>\<open>upsert\<close>: the first document
  that matches is updated, and when none matches nothing is written and the result is
  \<^verbatim>\<open>null\<close>. The result is the updated document, as with \<^verbatim>\<open>{ new: true }\<close>; the
  callers that do not pass that option ignore the result.
\<close>

fun findOneAndUpdate :: "('a \<Rightarrow> bool) \<Rightarrow> ('a \<Rightarrow> 'a) \<Rightarrow> 'a list \<Rightarrow> 'a option \<times> 'a list" where
  "findOneAndUpdate P f [] = (None, [])"
| "findOneAndUpdate P f (d # docs) =
     (if P d then (Some (f d), f d # docs)
      else (case findOneAndUpdate P f docs of (r, docs') \<Rightarrow> (r, d # docs')))"

text \<open>With \<^verbatim>\<open>{ upsert: true, new: true }\<close>: when none matches, the document \<open>new\<close>
  (the filter's and the update's fields) is inserted.\<close>

definition findOneAndUpsert ::
  "('a \<Rightarrow> bool) \<Rightarrow> ('a \<Rightarrow> 'a) \<Rightarrow> 'a \<Rightarrow> 'a list \<Rightarrow> 'a \<times> 'a list" where
  "findOneAndUpsert P f new docs =
     (case findOneAndUpdate P f docs of
        (None, _) \<Rightarrow> (new, docs @ [new])
      | (Some d, docs') \<Rightarrow> (d, docs'))"

section \<open>Presence\<close>

definition stalenessWindow :: int where
  "stalenessWindow = 2 * 60 * 1000"

text \<open>
  Lines 531 to 533 of the status handler:
  \<^verbatim>\<open>timeThreshold = new Date(Date.now() - 2 * 60 * 1000)\<close> and
  \<^verbatim>\<open>isOnline = onlineUser?.status === "online" && onlineUser.lastSeen > timeThreshold\<close>.
\<close>

definition isOnline :: "timestamp \<Rightarrow> online_user option \<Rightarrow> bool" where
  "isOnline now onlineUser =
     (let timeThreshold = now - stalenessWindow in
      case onlineUser of
        None \<Rightarrow> False
      | Some ou \<Rightarrow> status ou = Online \<and> lastSeen ou > timeThreshold)"

text \<open>\<^verbatim>\<open>GET /api/user/status/:peerId\<close>.\<close>

definition user_status :: "timestamp \<Rightarrow> string \<Rightarrow> state \<Rightarrow> response \<times> state" where
  "user_status now pid st =
     (case findOne (\<lambda>u. peerId u = pid) (users st) of
        None \<Rightarrow> ((404, Error ''User not found''), st)
      | Some usr \<Rightarrow>
          let onlineUser = findOne (\<lambda>ou. ou_peerId ou = pid) (onlineUsers st) in
          ((200, UserStatus (isOnline now onlineUser)
                            (map_option lastSeen onlineUser)
                            (username usr)), st))"

text \<open>
  \<^verbatim>\<open>POST /api/user/update-status\<close>: the upsert of the presence document, written out in
  the handler itself.
\<close>

definition user_update_status ::
  "timestamp \<Rightarrow> string option \<Rightarrow> string option \<Rightarrow> string option \<Rightarrow> state \<Rightarrow> response \<times> state" where
  "user_update_status now b_peerId b_username b_email st =
     (case b_peerId of
        None \<Rightarrow> ((400, MissingFields b_peerId b_username b_email), st)
      | Some pid \<Rightarrow>
          if pid = [] \<or> \<not> truthy b_username \<or> \<not> truthy b_email
          then ((400, MissingFields b_peerId b_username b_email), st)
          else
            (case findOneAndUpsert (\<lambda>ou. ou_peerId ou = pid)
                    (\<lambda>ou. ou\<lparr>ou_peerId := pid, ou_username := b_username,
                             ou_email := b_email, status := Online, lastSeen := now\<rparr>)
                    \<lparr>ou_peerId = pid, ou_username = b_username, ou_email = b_email,
                     status = Online, lastSeen = now\<rparr>
                    (onlineUsers st) of
               (onlineUser, docs) \<Rightarrow>
                 ((200, SuccessOnlineUser onlineUser), st\<lparr>onlineUsers := docs\<rparr>)))"

text \<open>
  Modelled from the spec: \<^verbatim>\<open>OnlineUsers.markOnline\<close> is a static of
  \<^verbatim>\<open>models/OnlineUsers.js\<close>, which is not among the source files. The spec (4.1) has
  "markOnline(peerId, displayName, contact): idempotent upsert; sets status = online,
  refreshes timestamp. No error on repeat calls." That is the upsert
  \<^verbatim>\<open>/api/user/update-status\<close> writes out.
\<close>

definition markOnline ::
  "timestamp \<Rightarrow> string \<Rightarrow> string option \<Rightarrow> string option \<Rightarrow> online_user list \<Rightarrow> online_user list" where
  "markOnline now pid uname mail docs =
     snd (findOneAndUpsert (\<lambda>ou. ou_peerId ou = pid)
            (\<lambda>ou. ou\<lparr>ou_peerId := pid, ou_username := uname, ou_email := mail,
                     status := Online, lastSeen := now\<rparr>)
            \<lparr>ou_peerId = pid, ou_username = uname, ou_email = mail,
             status = Online, lastSeen = now\<rparr>
            docs)"

text \<open>\<^verbatim>\<open>POST /api/user/heartbeat\<close>.\<close>

definition user_heartbeat ::
  "timestamp \<Rightarrow> string option \<Rightarrow> string option \<Rightarrow> string option \<Rightarrow> state \<Rightarrow> response \<times> state" where
  "user_heartbeat now b_peerId b_username b_email st =
     (case b_peerId of
        None \<Rightarrow> ((400, Error ''Peer ID is required''), st)
      | Some pid \<Rightarrow>
          if pid = [] then ((400, Error ''Peer ID is required''), st)
          else ((200, Success),
                st\<lparr>onlineUsers := markOnline now pid b_username b_email (onlineUsers st)\<rparr>))"

text \<open>
  The socket handlers share the variable \<^verbatim>\<open>currentUser\<close> of their connection, which
  \<^verbatim>\<open>user-online\<close> sets. They answer nothing: their result is the new state.
\<close>

record user_data =
  ud_peerId :: string
  ud_username :: "string option"
  ud_email :: "string option"

definition socket_user_online ::
  "timestamp \<Rightarrow> user_data \<Rightarrow> user_data option \<times> state \<Rightarrow> user_data option \<times> state" where
  "socket_user_online now userData cs =
     (case cs of (currentUser, st) \<Rightarrow>
        (Some userData,
         st\<lparr>onlineUsers := markOnline now (ud_peerId userData) (ud_username userData)
                               (ud_email userData) (onlineUsers st)\<rparr>))"

definition socket_heartbeat :: "timestamp \<Rightarrow> user_data option \<Rightarrow> string \<Rightarrow> state \<Rightarrow> state" where
  "socket_heartbeat now currentUser pid st =
     (case currentUser of
        None \<Rightarrow> st
      | Some cu \<Rightarrow>
          if ud_peerId cu = pid
          then st\<lparr>onlineUsers :=
                    snd (findOneAndUpdate (\<lambda>ou. ou_peerId ou = pid)
                           (\<lambda>ou. ou\<lparr>lastSeen := now\<rparr>) (onlineUsers st))\<rparr>
          else st)"

text \<open>\<^verbatim>\<open>POST /api/user/mark-offline\<close>. The three branches on the content type read the
  same \<^verbatim>\<open>req.body.peerId\<close>.\<close>

definition user_mark_offline :: "timestamp \<Rightarrow> string option \<Rightarrow> state \<Rightarrow> response \<times> state" where
  "user_mark_offline now b_peerId st =
     (case b_peerId of
        None \<Rightarrow> ((400, Error ''Peer ID is required''), st)
      | Some pid \<Rightarrow>
          if pid = [] then ((400, Error ''Peer ID is required''), st)
          else
            (case findOneAndUpdate (\<lambda>ou. ou_peerId ou = pid)
                    (\<lambda>ou. ou\<lparr>status := Offline, lastSeen := now\<rparr>) (onlineUsers st) of
               (None, _) \<Rightarrow> ((404, Error ''User not found''), st)
             | (Some _, docs) \<Rightarrow>
                 ((200, SuccessMessage ''User marked as offline''), st\<lparr>onlineUsers := docs\<rparr>)))"

section \<open>The message queue\<close>

text \<open>The \<^verbatim>\<open>_id\<close> that Mongoose gives a new document: a number above every stored id.\<close>

definition fresh_id :: "message list \<Rightarrow> nat" where
  "fresh_id docs = Suc (fold max (map msg_id docs) 0)"

text \<open>
  Modelled from the spec: the schema of \<^verbatim>\<open>models/MessageQueue.js\<close>, with its defaults,
  is not among the source files; \<^verbatim>\<open>new MessageQueue({...})\<close> in the handler passes the six
  fields sender to size and the schema fills in the rest. The spec (3, 4.2) has status in
  {ready, delivered}, "creates a record in status = ready with ready-at = now", a
  created-at, and "delivered-at (nullable until delivered)".
\<close>

definition MessageQueue_new ::
  "nat \<Rightarrow> timestamp \<Rightarrow> string \<Rightarrow> string \<Rightarrow> string \<Rightarrow> string \<Rightarrow> string \<Rightarrow> nat \<Rightarrow> message" where
  "MessageQueue_new i now sender sname receiver hash fname fsize =
     \<lparr>msg_id = i, senderPeerId = sender, senderUsername = sname, receiverPeerId = receiver,
      ipfsHash = hash, fileName = fname, fileSize = fsize, msg_status = Ready,
      createdAt = now, readyAt = now, deliveredAt = None\<rparr>"

text \<open>\<^verbatim>\<open>req.file\<close> as multer leaves it, and Pinata's side of one request: the API key of
  the environment and what \<^verbatim>\<open>axios.post\<close> does when it is called.\<close>

record upload_file =
  originalname :: string
  mimetype :: string
  file_size :: nat
  path :: string

record pinata_env =
  PINATA_API_KEY :: "string option"
  pinata_reply :: axios_result

text \<open>
  The \<^verbatim>\<open>try\<close> block up to the check of the response (lines 711 to 743): \<open>Inl\<close> is the
  message of the error thrown, \<open>Inr\<close> the \<^verbatim>\<open>IpfsHash\<close>. The request is logged in
  \<open>pinata_posts\<close> when \<^verbatim>\<open>axios.post\<close> is reached.
\<close>

definition pinFileToIPFS :: "pinata_env \<Rightarrow> upload_file \<Rightarrow> state \<Rightarrow> (string + string) \<times> state" where
  "pinFileToIPFS env file st =
     (if \<not> truthy (PINATA_API_KEY env) then (Inl ''IPFS service configuration error'', st)
      else
        let st' = st\<lparr>pinata_posts := pinata_posts st @ [(originalname file, pinata_reply env)]\<rparr>
        in (case pinata_reply env of
              AxiosError msg \<Rightarrow> (Inl msg, st')
            | AxiosResponse None \<Rightarrow> (Inl ''Failed to upload to IPFS'', st')
            | AxiosResponse (Some None) \<Rightarrow> (Inl ''Failed to upload to IPFS'', st')
            | AxiosResponse (Some (Some hash)) \<Rightarrow>
                if hash = [] then (Inl ''Failed to upload to IPFS'', st') else (Inr hash, st')))"

text \<open>\<^verbatim>\<open>fs.unlink(path)\<close>: the file is gone afterwards; a missing file is only logged.\<close>

definition unlink :: "string \<Rightarrow> state \<Rightarrow> state" where
  "unlink p st = st\<lparr>uploads := removeAll p (uploads st)\<rparr>"

text \<open>
  Lines 679 to 689 of the sharing handler: the lookup
  \<^verbatim>\<open>OnlineUsers.findOne({peerId: receiverPeerId, status: "online"})\<close>, whose result
  only decides whether a note is written to the console.
\<close>

definition note_online :: "string \<Rightarrow> state \<Rightarrow> state" where
  "note_online receiver st =
     (let isReceiverOnline =
            findOne (\<lambda>ou. ou_peerId ou = receiver \<and> status ou = Online) (onlineUsers st)
      in case isReceiverOnline of
           None \<Rightarrow> st
         | Some _ \<Rightarrow> st\<lparr>console := console st @
                          [''Note: Receiver '' @ receiver @
                           '' is currently online, but using offline sharing'']\<rparr>)"

text \<open>
  \<^verbatim>\<open>POST /api/share/offline\<close>. On an upload error the inner \<^verbatim>\<open>catch\<close> unlinks the file
  and rethrows with the prefix, and the outer \<^verbatim>\<open>catch\<close> unlinks again and answers 500
  with that message (never empty, so the \<^verbatim>\<open>|| "Internal server error"\<close> is not taken).
\<close>

definition share_offline ::
  "pinata_env \<Rightarrow> timestamp \<Rightarrow> upload_file option \<Rightarrow> string option \<Rightarrow> string option \<Rightarrow>
   string option \<Rightarrow> state \<Rightarrow> response \<times> state" where
  "share_offline env now req_file b_senderPeerId b_senderUsername b_receiverPeerId st =
     (case req_file of
        None \<Rightarrow> ((400, Error ''No file uploaded''), st)
      | Some file \<Rightarrow>
          (case (b_senderPeerId, b_senderUsername, b_receiverPeerId) of
             (Some sender, Some sname, Some receiver) \<Rightarrow>
               if sender = [] \<or> sname = [] \<or> receiver = []
               then ((400, Error ''Missing required fields''), st)
               else
                 (case findOne (\<lambda>u. peerId u = receiver) (users st) of
                    None \<Rightarrow> ((404, Error ''Receiver not found''), st)
                  | Some _ \<Rightarrow>
                      (case pinFileToIPFS env file (note_online receiver st) of
                            (Inl msg, st2) \<Rightarrow>
                              ((500, Error (''IPFS upload failed: '' @ msg)),
                               unlink (path file) (unlink (path file) st2))
                          | (Inr hash, st2) \<Rightarrow>
                              let msg = MessageQueue_new (fresh_id (messageQueue st2)) now
                                          sender sname receiver hash
                                          (originalname file) (file_size file);
                                  st3 = st2\<lparr>messageQueue := messageQueue st2 @ [msg]\<rparr>
                              in ((200, Queued hash (''https://gateway.pinata.cloud/ipfs/'' @ hash)),
                                  unlink (path file) st3)))
           | _ \<Rightarrow> ((400, Error ''Missing required fields''), st)))"

text \<open>
  \<^verbatim>\<open>GET /api/messages/pending/:peerId\<close>:
  \<^verbatim>\<open>find({receiverPeerId: peerId, status: "ready"}).sort({readyAt: -1})\<close>.
\<close>

definition messages_pending :: "string \<Rightarrow> state \<Rightarrow> response \<times> state" where
  "messages_pending pid st =
     (let messages = sort_key (\<lambda>m. - readyAt m)
                       (filter (\<lambda>m. receiverPeerId m = pid \<and> msg_status m = Ready)
                          (messageQueue st))
      in ((200, PendingMessages (length messages) messages), st))"

text \<open>\<^verbatim>\<open>POST /api/messages/delivered/:messageId\<close>, with \<^verbatim>\<open>peerId\<close> from the body.\<close>

definition messages_delivered :: "timestamp \<Rightarrow> nat \<Rightarrow> string option \<Rightarrow> state \<Rightarrow> response \<times> state" where
  "messages_delivered now messageId b_peerId st =
     (case findOne (\<lambda>m. msg_id m = messageId) (messageQueue st) of
        None \<Rightarrow> ((404, Error ''Message not found''), st)
      | Some msg \<Rightarrow>
          if Some (receiverPeerId msg) \<noteq> b_peerId
          then ((403, Error ''Unauthorized action''), st)
          else ((200, SuccessMessage ''Message marked as delivered''),
                st\<lparr>messageQueue :=
                     snd (findOneAndUpdate (\<lambda>m. msg_id m = messageId)
                            (\<lambda>m. m\<lparr>msg_status := Delivered, deliveredAt := Some now\<rparr>)
                            (messageQueue st))\<rparr>))"

section \<open>Runs of the server\<close>

text \<open>
  The requests and socket events modelled above. A socket event carries the
  \<^verbatim>\<open>currentUser\<close> of its connection. For \<^verbatim>\<open>/api/share/offline\<close> multer's disk
  storage has written the file into the uploads directory before the handler runs (a
  file that multer's filter or size limit rejects never reaches the handler).
\<close>

datatype request =
    GetUserStatus string
  | PostUpdateStatus "string option" "string option" "string option"
  | PostHeartbeat "string option" "string option" "string option"
  | PostMarkOffline "string option"
  | PostShareOffline pinata_env "upload_file option" "string option" "string option" "string option"
  | GetPendingMessages string
  | PostDelivered nat "string option"
  | SocketUserOnline user_data
  | SocketHeartbeat "user_data option" string

fun handle :: "timestamp \<Rightarrow> request \<Rightarrow> state \<Rightarrow> state" where
  "handle now (GetUserStatus pid) st = snd (user_status now pid st)"
| "handle now (PostUpdateStatus p u e) st = snd (user_update_status now p u e st)"
| "handle now (PostHeartbeat p u e) st = snd (user_heartbeat now p u e st)"
| "handle now (PostMarkOffline p) st = snd (user_mark_offline now p st)"
| "handle now (PostShareOffline env req_file s n r) st =
     snd (share_offline env now req_file s n r
            (case req_file of
               None \<Rightarrow> st
             | Some file \<Rightarrow> st\<lparr>uploads := path file # uploads st\<rparr>))"
| "handle now (GetPendingMessages pid) st = snd (messages_pending pid st)"
| "handle now (PostDelivered messageId p) st = snd (messages_delivered now messageId p st)"
| "handle now (SocketUserOnline userData) st = snd (socket_user_online now userData (None, st))"
| "handle now (SocketHeartbeat currentUser pid) st = socket_heartbeat now currentUser pid st"

fun run :: "(timestamp \<times> request) list \<Rightarrow> state \<Rightarrow> state" where
  "run [] st = st"
| "run ((now, r) # rs) st = run rs (handle now r st)"

text \<open>The hash of a reply that passed the handler's check of the response, and the
  hashes Pinata has acknowledged so far.\<close>

fun reply_hash :: "axios_result \<Rightarrow> string option" where
  "reply_hash (AxiosResponse (Some (Some hash))) = (if hash = [] then None else Some hash)"
| "reply_hash _ = None"

definition pinned :: "state \<Rightarrow> string list" where
  "pinned st = List.map_filter (\<lambda>post. reply_hash (snd post)) (pinata_posts st)"

text \<open>The upload of a request succeeds with \<open>hash\<close>: the API key is set and the
  reply carries that hash.\<close>

definition upload_succeeds :: "pinata_env \<Rightarrow> string \<Rightarrow> bool" where
  "upload_succeeds env hash =
     (truthy (PINATA_API_KEY env) \<and> reply_hash (pinata_reply env) = Some hash)"

text \<open>Every queued document refers to a blob that Pinata has acknowledged.\<close>

definition blobs_resolvable :: "state \<Rightarrow> bool" where
  "blobs_resolvable st =
     list_all (\<lambda>hash. hash \<noteq> [] \<and> hash \<in> set (pinned st)) (map ipfsHash (messageQueue st))"

text \<open>
  From \<open>st\<close> to \<open>st'\<close> the queue keeps its documents in place (new ones are appended),
  with their ids, and none that was delivered is ready again.
\<close>

definition delivered_stays :: "message \<Rightarrow> message \<Rightarrow> bool" where
  "delivered_stays m m' =
     (msg_id m' = msg_id m \<and> (msg_status m = Delivered \<longrightarrow> msg_status m' = Delivered))"

definition status_never_back :: "state \<Rightarrow> state \<Rightarrow> bool" where
  "status_never_back st st' =
     list_all2 delivered_stays (messageQueue st)
       (take (length (messageQueue st)) (messageQueue st'))"

section \<open>Example data\<close>

text \<open>
  The peers and the file of the spec's scenarios: \<open>p1\<close> came online at time 0 and sent
  \<^verbatim>\<open>doc.pdf\<close> (1024 bytes) to \<open>p2\<close>, who has no presence document, at time 1000.
\<close>

definition alice :: user where
  "alice = \<lparr>username = ''alice'', email = ''alice@example.org'', password = ''pw1'', peerId = ''p1''\<rparr>"

definition bob :: user where
  "bob = \<lparr>username = ''bob'', email = ''bob@example.org'', password = ''pw2'', peerId = ''p2''\<rparr>"

definition alice_online :: online_user where
  "alice_online = \<lparr>ou_peerId = ''p1'', ou_username = Some ''alice'',
                    ou_email = Some ''alice@example.org'', status = Online, lastSeen = 0\<rparr>"

definition doc_pdf :: message where
  "doc_pdf = MessageQueue_new 1 1000 ''p1'' ''alice'' ''p2'' ''QmDoc'' ''doc.pdf'' 1024"

definition db0 :: state where
  "db0 = \<lparr>users = [alice, bob], onlineUsers = [alice_online], messageQueue = [doc_pdf],
          uploads = [], pinata_posts = [(''doc.pdf'', AxiosResponse (Some (Some ''QmDoc'')))],
          console = []\<rparr>"

text \<open>The same state once \<open>p2\<close> has acknowledged the document at time 2000.\<close>

definition db_delivered :: state where
  "db_delivered =
     db0\<lparr>messageQueue := [doc_pdf\<lparr>msg_status := Delivered, deliveredAt := Some 2000\<rparr>]\<rparr>"

text \<open>A file as multer leaves it, and Pinata answering with a hash or failing.\<close>

definition notes_txt :: upload_file where
  "notes_txt = \<lparr>originalname = ''notes.txt'', mimetype = ''text/plain'', file_size = 12,
                 path = ''uploads/file-1.txt''\<rparr>"

definition pinata_ok :: pinata_env where
  "pinata_ok = \<lparr>PINATA_API_KEY = Some ''key'', pinata_reply = AxiosResponse (Some (Some ''QmNotes''))\<rparr>"

definition pinata_down :: pinata_env where
  "pinata_down = \<lparr>PINATA_API_KEY = Some ''key'', pinata_reply = AxiosError ''timeout''\<rparr>"

text \<open>\<open>db0\<close> with the received file in the uploads directory.\<close>

definition db_uploaded :: state where
  "db_uploaded = db0\<lparr>uploads := [''uploads/file-1.txt'']\<rparr>"

text \<open>
  \<open>db0\<close> after \<^verbatim>\<open>POST /api/user/update-status\<close> at time 0 for the peer id \<open>p9\<close>,
  which no user has: the handler does not look at the \<^verbatim>\<open>User\<close> collection.
\<close>

definition eve_online :: online_user where
  "eve_online = \<lparr>ou_peerId = ''p9'', ou_username = Some ''eve'',
                  ou_email = Some ''eve@example.org'', status = Online, lastSeen = 0\<rparr>"

definition db_stranger :: state where
  "db_stranger =
     handle 0 (PostUpdateStatus (Some ''p9'') (Some ''eve'') (Some ''eve@example.org'')) db0"

lemmas example_defs = alice_def bob_def alice_online_def doc_pdf_def db0_def MessageQueue_new_def
  db_delivered_def notes_txt_def pinata_ok_def pinata_down_def db_uploaded_def

section \<open>Facts about the store operations\<close>

lemma findOne_Some_holds: "findOne P docs = Some d \<Longrightarrow> P d \<and> d \<in> set docs"
  by (auto simp: findOne_def find_Some_iff)

lemma findOneAndUpdate_None:
  "findOne P docs = None \<Longrightarrow> findOneAndUpdate P f docs = (None, docs)"
  by (induction docs) (auto simp: findOne_def split: if_splits)

lemma findOneAndUpdate_Some:
  "findOne P docs = Some d \<Longrightarrow> fst (findOneAndUpdate P f docs) = Some (f d)"
  by (induction docs) (auto simp: findOne_def split: if_splits prod.splits)

text \<open>Only the first match is rewritten; the documents around it stay as they are.\<close>

lemma findOneAndUpdate_split:
  "findOne P docs = Some d \<Longrightarrow>
   \<exists>before after. docs = before @ d # after \<and> (\<forall>x \<in> set before. \<not> P x) \<and>
     findOneAndUpdate P f docs = (Some (f d), before @ f d # after)"
proof (induction docs)
  case Nil
  then show ?case by (simp add: findOne_def)
next
  case (Cons a docs)
  show ?case
  proof (cases "P a")
    case True
    with Cons.prems have "a = d" by (simp add: findOne_def)
    with True show ?thesis by (intro exI[of _ "[]"] exI[of _ docs]) simp
  next
    case False
    with Cons.prems have "findOne P docs = Some d" by (simp add: findOne_def)
    from Cons.IH[OF this] obtain before after where
      h: "docs = before @ d # after" "\<forall>x \<in> set before. \<not> P x"
         "findOneAndUpdate P f docs = (Some (f d), before @ f d # after)" by blast
    with False show ?thesis
      by (intro exI[of _ "a # before"] exI[of _ after]) simp
  qed
qed

lemma findOne_append_first:
  "\<forall>x \<in> set before. \<not> P x \<Longrightarrow> P y \<Longrightarrow> findOne P (before @ y # after) = Some y"
  by (induction before) (auto simp: findOne_def)

lemma findOne_after_update:
  assumes "findOne P docs = Some d" "P (f d)"
  shows "findOne P (snd (findOneAndUpdate P f docs)) = Some (f d)"
proof -
  from findOneAndUpdate_split[OF assms(1), of f] obtain before after where
    h: "\<forall>x \<in> set before. \<not> P x" "findOneAndUpdate P f docs = (Some (f d), before @ f d # after)"
    by blast
  then show ?thesis using assms(2) by (simp add: findOne_append_first)
qed

lemma length_findOneAndUpdate: "length (snd (findOneAndUpdate P f docs)) = length docs"
  by (induction docs) (auto split: prod.splits)

lemma findOneAndUpdate_map:
  "(\<And>d. g (f d) = g d) \<Longrightarrow> map g (snd (findOneAndUpdate P f docs)) = map g docs"
  by (induction docs) (auto split: prod.splits)

lemma findOneAndUpdate_rel:
  assumes "\<And>d. R d d" "\<And>d. R d (f d)"
  shows "list_all2 R docs (snd (findOneAndUpdate P f docs))"
  using assms by (induction docs) (auto split: prod.splits simp: list_all2_refl)

lemma findOneAndUpsert_found:
  assumes "P new" "\<And>d. P d \<Longrightarrow> P (f d)"
  shows "\<exists>d. findOne P (snd (findOneAndUpsert P f new docs)) = Some d \<and>
             (case findOne P docs of None \<Rightarrow> d = new | Some old \<Rightarrow> d = f old)"
proof (cases "findOne P docs")
  case None
  then have n: "\<forall>x \<in> set docs. \<not> P x" by (simp add: findOne_def find_None_iff)
  have "findOne P (docs @ [new]) = Some new"
    using findOne_append_first[OF n assms(1), of "[]"] by simp
  then show ?thesis using None by (simp add: findOneAndUpsert_def findOneAndUpdate_None)
next
  case (Some old)
  have p: "P (f old)" using findOne_Some_holds[OF Some] assms(2) by blast
  from findOneAndUpdate_split[OF Some, of f] obtain before after where
    h: "findOneAndUpdate P f docs = (Some (f old), before @ f old # after)" by blast
  have "findOne P (snd (findOneAndUpdate P f docs)) = Some (f old)"
    using Some p by (rule findOne_after_update[where f = f])
  then show ?thesis using Some h by (simp add: findOneAndUpsert_def)
qed

text \<open>The id given to a new queue document is the id of no stored one.\<close>

lemma fold_max_ge: "(a::nat) \<le> fold max xs a"
proof (induction xs arbitrary: a)
  case Nil
  show ?case by simp
next
  case (Cons x xs)
  have "a \<le> max x a" by simp
  also have "\<dots> \<le> fold max xs (max x a)" by (rule Cons.IH)
  finally show ?case by simp
qed

lemma fold_max_member: "(x::nat) \<in> set xs \<Longrightarrow> x \<le> fold max xs a"
proof (induction xs arbitrary: a)
  case Nil
  then show ?case by simp
next
  case (Cons y xs)
  show ?case
  proof (cases "x = y")
    case True
    have "x \<le> max y a" using True by simp
    also have "\<dots> \<le> fold max xs (max y a)" by (rule fold_max_ge)
    finally show ?thesis by simp
  next
    case False
    with Cons.prems have "x \<in> set xs" by simp
    then show ?thesis using Cons.IH by simp
  qed
qed

lemma fresh_id_fresh: "m \<in> set docs \<Longrightarrow> msg_id m < fresh_id docs"
  using fold_max_member[of "msg_id m" "map msg_id docs" 0] by (simp add: fresh_id_def less_Suc_eq_le)

section \<open>Presence queries\<close>

text \<open>
  C4, as the code has it. For every presence document the computed flag is true exactly
  when the stored status is online and \<open>now - lastSeen\<close> is strictly below the staleness
  window of two minutes (120000 ms). The status query reports that flag, with 200, when
  the peer id is in the identity store; then a heartbeat age of at least the window is
  reported as not online, whatever the stored status is. For a peer id that is not in
  the identity store the query answers 404 before it reads the presence document.
\<close>

theorem user_status_online_iff_fresh:
  assumes "findOne (\<lambda>ou. ou_peerId ou = pid) (onlineUsers st) = Some ou"
  shows "isOnline now (Some ou) = (status ou = Online \<and> now - lastSeen ou < stalenessWindow)
       \<and> stalenessWindow = 2 * 60 * 1000
       \<and> (\<forall>usr. findOne (\<lambda>u. peerId u = pid) (users st) = Some usr \<longrightarrow>
             user_status now pid st =
               ((200, UserStatus (status ou = Online \<and> now - lastSeen ou < stalenessWindow)
                        (Some (lastSeen ou)) (username usr)), st))
       \<and> (\<forall>usr. findOne (\<lambda>u. peerId u = pid) (users st) = Some usr
                 \<and> stalenessWindow \<le> now - lastSeen ou \<longrightarrow>
             user_status now pid st =
               ((200, UserStatus False (Some (lastSeen ou)) (username usr)), st))
       \<and> (findOne (\<lambda>u. peerId u = pid) (users st) = None \<longrightarrow>
             user_status now pid st = ((404, Error ''User not found''), st))"
  using assms by (auto simp: user_status_def isOnline_def stalenessWindow_def Let_def)

text \<open>
  Scenario A: \<open>p1\<close> is stored as online, last seen at 0. At 119999 it is online; at
  120000, and at 150000, it is not. \<open>p9\<close> has a presence document and no user: 404.
\<close>

theorem user_status_online_iff_fresh_witness:
  "findOne (\<lambda>ou. ou_peerId ou = ''p1'') (onlineUsers db0) = Some alice_online
   \<and> findOne (\<lambda>ou. ou_peerId ou = ''p9'') (onlineUsers db_stranger) = Some eve_online
   \<and> findOne (\<lambda>u. peerId u = ''p1'') (users db0) = Some alice
   \<and> findOne (\<lambda>u. peerId u = ''p9'') (users db_stranger) = None
   \<and> status alice_online = Online
   \<and> stalenessWindow \<le> 120000 - lastSeen alice_online
   \<and> stalenessWindow \<le> 150000 - lastSeen alice_online
   \<and> user_status 119999 ''p1'' db0 = ((200, UserStatus True (Some 0) ''alice''), db0)
   \<and> user_status 120000 ''p1'' db0 = ((200, UserStatus False (Some 0) ''alice''), db0)
   \<and> user_status 150000 ''p1'' db0 = ((200, UserStatus False (Some 0) ''alice''), db0)
   \<and> user_status 1 ''p9'' db_stranger = ((404, Error ''User not found''), db_stranger)"
proof -
  have h1: "findOne (\<lambda>ou. ou_peerId ou = ''p1'') (onlineUsers db0) = Some alice_online"
    by (simp add: example_defs findOne_def)
  have h2: "findOne (\<lambda>ou. ou_peerId ou = ''p9'') (onlineUsers db_stranger) = Some eve_online"
    by (simp add: db_stranger_def eve_online_def example_defs findOne_def user_update_status_def
                  findOneAndUpsert_def)
  have u1: "findOne (\<lambda>u. peerId u = ''p1'') (users db0) = Some alice"
    by (simp add: example_defs findOne_def)
  have u9: "findOne (\<lambda>u. peerId u = ''p9'') (users db_stranger) = None"
    by (simp add: db_stranger_def example_defs findOne_def user_update_status_def
                  findOneAndUpsert_def)
  have v: "status alice_online = Online" "lastSeen alice_online = 0" "username alice = ''alice''"
    by (simp_all add: example_defs)
  have w: "stalenessWindow \<le> 120000 - lastSeen alice_online"
          "stalenessWindow \<le> 150000 - lastSeen alice_online"
    by (simp_all add: v stalenessWindow_def)
  have a: "user_status 119999 ''p1'' db0 = ((200, UserStatus True (Some 0) ''alice''), db0)"
    using user_status_online_iff_fresh [OF h1, of 119999] u1 by (simp add: v stalenessWindow_def)
  have "user_status 120000 ''p1'' db0
          = ((200, UserStatus False (Some (lastSeen alice_online)) (username alice)), db0)"
    using user_status_online_iff_fresh [OF h1, of 120000] u1 w(1) by blast
  then have b: "user_status 120000 ''p1'' db0 = ((200, UserStatus False (Some 0) ''alice''), db0)"
    by (simp only: v)
  have "user_status 150000 ''p1'' db0
          = ((200, UserStatus False (Some (lastSeen alice_online)) (username alice)), db0)"
    using user_status_online_iff_fresh [OF h1, of 150000] u1 w(2) by blast
  then have c: "user_status 150000 ''p1'' db0 = ((200, UserStatus False (Some 0) ''alice''), db0)"
    by (simp only: v)
  have d: "user_status 1 ''p9'' db_stranger = ((404, Error ''User not found''), db_stranger)"
    using user_status_online_iff_fresh [OF h2, of 1] u9 by blast
  show ?thesis using h1 h2 u1 u9 v(1) w a b c d by (intro conjI)
qed

text \<open>
  The claim as the spec words it fails: \<open>p9\<close> has a presence document, stored as online
  and seen one millisecond ago, and the query does not report it reachable but answers
  404.
\<close>

theorem user_status_unregistered_answers_404:
  "map peerId (users db_stranger) = [''p1'', ''p2'']
   \<and> map ou_peerId (onlineUsers db_stranger) = [''p1'', ''p9'']
   \<and> map status (onlineUsers db_stranger) = [Online, Online]
   \<and> map lastSeen (onlineUsers db_stranger) = [0, 0]
   \<and> 1 - 0 < stalenessWindow
   \<and> fst (user_status 1 ''p9'' db_stranger) = (404, Error ''User not found'')"
  by (simp add: db_stranger_def example_defs findOne_def stalenessWindow_def user_status_def
                user_update_status_def findOneAndUpsert_def)

text \<open>
  C10. A peer id of the identity store with no presence document gets 200 with
  \<open>online\<close> false and a null \<open>lastSeen\<close>; the query answers 404 exactly when the peer
  id is not in the identity store.
\<close>

theorem user_status_without_presence:
  "(findOne (\<lambda>u. peerId u = pid) (users st) = None \<longrightarrow>
      user_status now pid st = ((404, Error ''User not found''), st))
   \<and> (\<forall>usr. findOne (\<lambda>u. peerId u = pid) (users st) = Some usr
           \<and> findOne (\<lambda>ou. ou_peerId ou = pid) (onlineUsers st) = None \<longrightarrow>
         user_status now pid st = ((200, UserStatus False None (username usr)), st))
   \<and> (fst (fst (user_status now pid st)) = 404
        \<longleftrightarrow> findOne (\<lambda>u. peerId u = pid) (users st) = None)"
  by (auto simp: user_status_def isOnline_def Let_def split: option.splits)

theorem user_status_without_presence_witness:
  "findOne (\<lambda>u. peerId u = ''p2'') (users db0) = Some bob
   \<and> findOne (\<lambda>ou. ou_peerId ou = ''p2'') (onlineUsers db0) = None
   \<and> user_status 5000 ''p2'' db0 = ((200, UserStatus False None ''bob''), db0)
   \<and> findOne (\<lambda>u. peerId u = ''p9'') (users db0) = None
   \<and> user_status 5000 ''p9'' db0 = ((404, Error ''User not found''), db0)"
  using user_status_without_presence [of "''p2''" db0 5000]
        user_status_without_presence [of "''p9''" db0 5000]
  by (simp add: example_defs findOne_def)

text \<open>
  C8. For a peer id (a non-empty string: the handler answers 400 to a missing or empty
  one before it looks anything up) with a presence document, mark-offline answers 200
  and the document then has status offline and \<open>lastSeen = now\<close>, its other fields as
  before; with no presence document it answers 404 and the state is unchanged.
\<close>

theorem user_mark_offline_sets_offline:
  assumes "pid \<noteq> []"
  shows "(\<forall>ou. findOne (\<lambda>ou. ou_peerId ou = pid) (onlineUsers st) = Some ou \<longrightarrow>
           (\<exists>docs. user_mark_offline now (Some pid) st =
                     ((200, SuccessMessage ''User marked as offline''), st\<lparr>onlineUsers := docs\<rparr>)
              \<and> length docs = length (onlineUsers st)
              \<and> findOne (\<lambda>ou. ou_peerId ou = pid) docs
                  = Some (ou\<lparr>status := Offline, lastSeen := now\<rparr>)))
       \<and> (findOne (\<lambda>ou. ou_peerId ou = pid) (onlineUsers st) = None \<longrightarrow>
            user_mark_offline now (Some pid) st = ((404, Error ''User not found''), st))"
proof (intro conjI allI impI)
  fix ou assume h: "findOne (\<lambda>ou. ou_peerId ou = pid) (onlineUsers st) = Some ou"
  let ?f = "\<lambda>ou. ou\<lparr>status := Offline, lastSeen := now\<rparr>"
  let ?P = "\<lambda>ou. ou_peerId ou = pid"
  let ?docs = "snd (findOneAndUpdate ?P ?f (onlineUsers st))"
  have p: "?P ou" using findOne_Some_holds[OF h] by simp
  have 1: "fst (findOneAndUpdate ?P ?f (onlineUsers st)) = Some (?f ou)"
    by (rule findOneAndUpdate_Some[OF h])
  have 2: "findOne ?P ?docs = Some (?f ou)"
    by (rule findOne_after_update[OF h]) (use p in simp)
  have 3: "length ?docs = length (onlineUsers st)"
    by (rule length_findOneAndUpdate)
  have 4: "user_mark_offline now (Some pid) st =
             ((200, SuccessMessage ''User marked as offline''), st\<lparr>onlineUsers := ?docs\<rparr>)"
    using 1 assms by (auto simp: user_mark_offline_def split: prod.splits option.splits)
  show "\<exists>docs. user_mark_offline now (Some pid) st =
                     ((200, SuccessMessage ''User marked as offline''), st\<lparr>onlineUsers := docs\<rparr>)
              \<and> length docs = length (onlineUsers st)
              \<and> findOne ?P docs = Some (?f ou)"
    using 2 3 4 by blast
next
  assume "findOne (\<lambda>ou. ou_peerId ou = pid) (onlineUsers st) = None"
  then show "user_mark_offline now (Some pid) st = ((404, Error ''User not found''), st)"
    using assms by (simp add: user_mark_offline_def findOneAndUpdate_None)
qed

theorem user_mark_offline_sets_offline_witness:
  "''p1'' \<noteq> []
   \<and> findOne (\<lambda>ou. ou_peerId ou = ''p1'') (onlineUsers db0) = Some alice_online
   \<and> user_mark_offline 7000 (Some ''p1'') db0 =
       ((200, SuccessMessage ''User marked as offline''),
        db0\<lparr>onlineUsers := [alice_online\<lparr>status := Offline, lastSeen := 7000\<rparr>]\<rparr>)
   \<and> ''p2'' \<noteq> []
   \<and> findOne (\<lambda>ou. ou_peerId ou = ''p2'') (onlineUsers db0) = None
   \<and> user_mark_offline 7000 (Some ''p2'') db0 = ((404, Error ''User not found''), db0)"
  using user_mark_offline_sets_offline [of "''p1''" db0 7000]
        user_mark_offline_sets_offline [of "''p2''" db0 7000]
  by (simp add: example_defs findOne_def user_mark_offline_def)

text \<open>After \<open>markOnline\<close> the peer has a presence document, online and seen now.\<close>

lemma markOnline_found:
  "\<exists>ou. findOne (\<lambda>ou. ou_peerId ou = pid) (markOnline now pid un em docs) = Some ou
        \<and> status ou = Online \<and> lastSeen ou = now"
proof -
  let ?P = "\<lambda>ou. ou_peerId ou = pid"
  let ?f = "\<lambda>ou. ou\<lparr>ou_peerId := pid, ou_username := un, ou_email := em,
                      status := Online, lastSeen := now\<rparr>"
  let ?new = "\<lparr>ou_peerId = pid, ou_username = un, ou_email = em, status = Online, lastSeen = now\<rparr>"
  from findOneAndUpsert_found[of ?P ?new ?f docs] obtain d where
    d: "findOne ?P (snd (findOneAndUpsert ?P ?f ?new docs)) = Some d"
       "(case findOne ?P docs of None \<Rightarrow> d = ?new | Some old \<Rightarrow> d = ?f old)"
    by auto
  from d(2) have "status d = Online \<and> lastSeen d = now" by (auto split: option.splits)
  with d(1) show ?thesis by (auto simp: markOnline_def)
qed

text \<open>
  C2, as the code has it. No heartbeat fails with NotFound. The HTTP heartbeat with a
  non-empty peer id answers 200 and upserts through \<open>markOnline\<close>: afterwards the peer
  has a presence document with status online and \<open>lastSeen = now\<close>, created if there
  was none. The socket heartbeat creates nothing: with no presence document the state is
  unchanged, and with one (for the peer id of its own connection) only \<open>lastSeen\<close> of
  that document changes; for a peer id that is not the connection's own it does nothing.
\<close>

theorem heartbeat_upserts_or_refreshes:
  "(pid \<noteq> [] \<longrightarrow>
      user_heartbeat now (Some pid) un em st
        = ((200, Success), st\<lparr>onlineUsers := markOnline now pid un em (onlineUsers st)\<rparr>)
      \<and> (\<exists>ou. findOne (\<lambda>ou. ou_peerId ou = pid) (markOnline now pid un em (onlineUsers st)) = Some ou
             \<and> status ou = Online \<and> lastSeen ou = now))
   \<and> (findOne (\<lambda>ou. ou_peerId ou = pid) (onlineUsers st) = None \<longrightarrow>
        socket_heartbeat now currentUser pid st = st)
   \<and> (\<forall>ou cu. findOne (\<lambda>ou. ou_peerId ou = pid) (onlineUsers st) = Some ou
         \<and> currentUser = Some cu \<and> ud_peerId cu = pid \<longrightarrow>
        (\<exists>before after. onlineUsers st = before @ ou # after
           \<and> socket_heartbeat now currentUser pid st
               = st\<lparr>onlineUsers := before @ ou\<lparr>lastSeen := now\<rparr> # after\<rparr>))
   \<and> ((\<forall>cu. currentUser = Some cu \<longrightarrow> ud_peerId cu \<noteq> pid) \<longrightarrow>
        socket_heartbeat now currentUser pid st = st)"
proof (intro conjI impI allI)
  assume "pid \<noteq> []"
  then show "user_heartbeat now (Some pid) un em st
        = ((200, Success), st\<lparr>onlineUsers := markOnline now pid un em (onlineUsers st)\<rparr>)"
    by (simp add: user_heartbeat_def)
next
  show "\<exists>ou. findOne (\<lambda>ou. ou_peerId ou = pid) (markOnline now pid un em (onlineUsers st)) = Some ou
             \<and> status ou = Online \<and> lastSeen ou = now"
    by (rule markOnline_found)
next
  assume "findOne (\<lambda>ou. ou_peerId ou = pid) (onlineUsers st) = None"
  then show "socket_heartbeat now currentUser pid st = st"
    by (simp add: socket_heartbeat_def findOneAndUpdate_None split: option.splits)
next
  fix ou cu
  assume h: "findOne (\<lambda>ou. ou_peerId ou = pid) (onlineUsers st) = Some ou
         \<and> currentUser = Some cu \<and> ud_peerId cu = pid"
  from findOneAndUpdate_split[of "\<lambda>ou. ou_peerId ou = pid" "onlineUsers st" ou "\<lambda>ou. ou\<lparr>lastSeen := now\<rparr>"] h
  obtain before after where
    s: "onlineUsers st = before @ ou # after"
       "findOneAndUpdate (\<lambda>ou. ou_peerId ou = pid) (\<lambda>ou. ou\<lparr>lastSeen := now\<rparr>) (onlineUsers st)
          = (Some (ou\<lparr>lastSeen := now\<rparr>), before @ ou\<lparr>lastSeen := now\<rparr> # after)"
    by blast
  have "socket_heartbeat now currentUser pid st
               = st\<lparr>onlineUsers := before @ ou\<lparr>lastSeen := now\<rparr> # after\<rparr>"
    using h s(2) by (simp add: socket_heartbeat_def)
  with s(1) show "\<exists>before after. onlineUsers st = before @ ou # after
           \<and> socket_heartbeat now currentUser pid st
               = st\<lparr>onlineUsers := before @ ou\<lparr>lastSeen := now\<rparr> # after\<rparr>"
    by blast
next
  assume "\<forall>cu. currentUser = Some cu \<longrightarrow> ud_peerId cu \<noteq> pid"
  then show "socket_heartbeat now currentUser pid st = st"
    by (simp add: socket_heartbeat_def split: option.splits)
qed

theorem heartbeat_upserts_or_refreshes_witness:
  "''p2'' \<noteq> []
   \<and> findOne (\<lambda>ou. ou_peerId ou = ''p2'') (onlineUsers db0) = None
   \<and> user_heartbeat 5000 (Some ''p2'') None None db0
       = ((200, Success), db0\<lparr>onlineUsers := markOnline 5000 ''p2'' None None (onlineUsers db0)\<rparr>)
   \<and> socket_heartbeat 5000 None ''p2'' db0 = db0
   \<and> findOne (\<lambda>ou. ou_peerId ou = ''p1'') (onlineUsers db0) = Some alice_online
   \<and> socket_heartbeat 5000 (Some \<lparr>ud_peerId = ''p1'', ud_username = None, ud_email = None\<rparr>) ''p1'' db0
       = db0\<lparr>onlineUsers := [alice_online\<lparr>lastSeen := 5000\<rparr>]\<rparr>"
  using heartbeat_upserts_or_refreshes [of "''p2''" 5000 None None db0 None]
        heartbeat_upserts_or_refreshes [of "''p1''" 5000 None None db0
          "Some \<lparr>ud_peerId = ''p1'', ud_username = None, ud_email = None\<rparr>"]
  by (simp add: example_defs findOne_def socket_heartbeat_def)

text \<open>
  The claim as the spec words it fails: \<open>p2\<close> has no presence document, and its
  heartbeat answers 200 and creates one.
\<close>

theorem heartbeat_creates_presence:
  "map ou_peerId (onlineUsers db0) = [''p1'']
   \<and> user_heartbeat 5000 (Some ''p2'') (Some ''bob'') (Some ''bob@example.org'') db0
     = ((200, Success),
        db0\<lparr>onlineUsers := [alice_online,
               \<lparr>ou_peerId = ''p2'', ou_username = Some ''bob'', ou_email = Some ''bob@example.org'',
                status = Online, lastSeen = 5000\<rparr>]\<rparr>)"
  by (simp add: example_defs user_heartbeat_def markOnline_def findOneAndUpsert_def)

section \<open>The pending list and the acknowledgment\<close>

text \<open>
  C5. The pending list of a peer id is the ready documents addressed to it, each as
  often as it is stored and no other, newest \<open>readyAt\<close> first, with \<open>count\<close> the
  length of the list.
\<close>

theorem messages_pending_ready_newest_first:
  "\<exists>msgs. messages_pending pid st = ((200, PendingMessages (length msgs) msgs), st)
     \<and> mset msgs = mset (filter (\<lambda>m. receiverPeerId m = pid \<and> msg_status m = Ready)
                           (messageQueue st))
     \<and> sorted_wrt (\<lambda>a b. readyAt b \<le> readyAt a) msgs"
proof -
  let ?ms = "sort_key (\<lambda>m. - readyAt m)
               (filter (\<lambda>m. receiverPeerId m = pid \<and> msg_status m = Ready) (messageQueue st))"
  have "sorted (map (\<lambda>m. - readyAt m) ?ms)" by (rule sorted_sort_key)
  then have "sorted_wrt (\<lambda>a b. readyAt b \<le> readyAt a) ?ms" by (simp add: sorted_map)
  then show ?thesis by (intro exI[of _ ?ms]) (simp add: messages_pending_def Let_def)
qed

text \<open>
  C3. When the peer id of the request is not the receiver of the document, the
  acknowledgment answers 403 and the whole state is as before; a ready document is still
  in the pending list of its receiver afterwards.
\<close>

theorem messages_delivered_unauthorized:
  assumes "findOne (\<lambda>m. msg_id m = messageId) (messageQueue st) = Some msg"
      and "b_peerId \<noteq> Some (receiverPeerId msg)"
  shows "messages_delivered now messageId b_peerId st = ((403, Error ''Unauthorized action''), st)
       \<and> (msg_status msg = Ready \<longrightarrow>
            (\<exists>msgs. fst (messages_pending (receiverPeerId msg)
                          (snd (messages_delivered now messageId b_peerId st)))
                     = (200, PendingMessages (length msgs) msgs) \<and> msg \<in> set msgs))"
proof -
  have a: "messages_delivered now messageId b_peerId st = ((403, Error ''Unauthorized action''), st)"
    using assms by (auto simp: messages_delivered_def)
  have "msg \<in> set (messageQueue st)" using assms(1) findOne_Some_holds by fastforce
  then show ?thesis unfolding a by (auto simp: messages_pending_def Let_def)
qed

text \<open>Scenario C: \<open>p3\<close> acknowledges the document addressed to \<open>p2\<close>.\<close>

theorem messages_delivered_unauthorized_witness:
  "findOne (\<lambda>m. msg_id m = 1) (messageQueue db0) = Some doc_pdf
   \<and> Some ''p3'' \<noteq> Some (receiverPeerId doc_pdf)
   \<and> msg_status doc_pdf = Ready
   \<and> messages_delivered 3000 1 (Some ''p3'') db0 = ((403, Error ''Unauthorized action''), db0)
   \<and> fst (messages_pending ''p2'' db0) = (200, PendingMessages 1 [doc_pdf])"
proof -
  have h1: "findOne (\<lambda>m. msg_id m = 1) (messageQueue db0) = Some doc_pdf"
    by (simp add: example_defs findOne_def)
  have h2: "Some ''p3'' \<noteq> Some (receiverPeerId doc_pdf)"
    by (simp add: example_defs)
  have h3: "msg_status doc_pdf = Ready"
    by (simp add: example_defs)
  have c1: "messages_delivered 3000 1 (Some ''p3'') db0 = ((403, Error ''Unauthorized action''), db0)"
    using messages_delivered_unauthorized [OF h1 h2, of 3000] by blast
  have c2: "fst (messages_pending ''p2'' db0) = (200, PendingMessages 1 [doc_pdf])"
    by (simp add: example_defs messages_pending_def Let_def)
  show ?thesis using h1 h2 h3 c1 c2 by blast
qed

section \<open>Delivered stays delivered\<close>

lemma delivered_stays_refl: "delivered_stays m m"
  by (simp add: delivered_stays_def)

lemma delivered_stays_trans:
  "delivered_stays a b \<Longrightarrow> delivered_stays b c \<Longrightarrow> delivered_stays a c"
  by (simp add: delivered_stays_def)

lemma status_never_back_same:
  "messageQueue st' = messageQueue st @ rest \<Longrightarrow> status_never_back st st'"
  by (simp add: status_never_back_def list_all2_refl delivered_stays_refl)

lemma status_never_back_trans:
  assumes "status_never_back a b" "status_never_back b c"
  shows "status_never_back a c"
proof -
  let ?A = "messageQueue a" and ?B = "messageQueue b" and ?C = "messageQueue c"
  from assms(1) have lab: "length ?A \<le> length ?B"
    by (auto simp: status_never_back_def dest: list_all2_lengthD)
  from assms(2) have lbc: "length ?B \<le> length ?C"
    by (auto simp: status_never_back_def dest: list_all2_lengthD)
  have "delivered_stays (?A ! i) (?C ! i)" if "i < length ?A" for i
  proof -
    from assms(1) that lab have 1: "delivered_stays (?A ! i) (?B ! i)"
      by (auto simp: status_never_back_def list_all2_conv_all_nth)
    from assms(2) that lab lbc have 2: "delivered_stays (?B ! i) (?C ! i)"
      by (auto simp: status_never_back_def list_all2_conv_all_nth)
    from 1 2 show ?thesis by (rule delivered_stays_trans)
  qed
  with lab lbc show ?thesis
    by (auto simp: status_never_back_def list_all2_conv_all_nth)
qed

lemma messageQueue_share_offline:
  "\<exists>rest. messageQueue (snd (share_offline env now req_file s n r st)) = messageQueue st @ rest"
  by (auto simp: share_offline_def pinFileToIPFS_def unlink_def note_online_def Let_def
           split: option.splits prod.splits sum.splits if_splits axios_result.splits)

lemma status_never_back_handle: "status_never_back st (handle now r st)"
proof (cases r)
  case (PostShareOffline env req_file s n r')
  obtain st0 where st0: "st0 = (case req_file of None \<Rightarrow> st | Some file \<Rightarrow> st\<lparr>uploads := path file # uploads st\<rparr>)"
    by blast
  have q: "messageQueue st0 = messageQueue st" using st0 by (simp split: option.splits)
  from messageQueue_share_offline[of env now req_file s n r' st0] obtain rest where
    "messageQueue (snd (share_offline env now req_file s n r' st0)) = messageQueue st @ rest"
    using q by auto
  then show ?thesis using PostShareOffline st0 by (simp add: status_never_back_same)
next
  case (PostDelivered messageId p)
  have "list_all2 delivered_stays (messageQueue st)
          (snd (findOneAndUpdate (\<lambda>m. msg_id m = messageId)
                  (\<lambda>m. m\<lparr>msg_status := Delivered, deliveredAt := Some now\<rparr>) (messageQueue st)))"
    by (rule findOneAndUpdate_rel) (simp_all add: delivered_stays_def)
  then show ?thesis using PostDelivered
    by (auto simp: messages_delivered_def status_never_back_def list_all2_refl delivered_stays_refl
                   length_findOneAndUpdate split: option.splits)
qed (auto simp: status_never_back_def list_all2_refl delivered_stays_refl
      user_status_def user_update_status_def user_heartbeat_def user_mark_offline_def
      messages_pending_def socket_user_online_def socket_heartbeat_def Let_def
      split: option.splits prod.splits if_splits)

lemma status_never_back_run: "status_never_back st (run evs st)"
proof (induction evs arbitrary: st)
  case Nil
  show ?case by (simp add: status_never_back_def list_all2_refl delivered_stays_refl)
next
  case (Cons ev evs)
  obtain now r where ev: "ev = (now, r)" by (cases ev)
  have "status_never_back st (handle now r st)" by (rule status_never_back_handle)
  moreover have "status_never_back (handle now r st) (run evs (handle now r st))" by (rule Cons.IH)
  ultimately show ?case unfolding ev by (simp add: status_never_back_trans[of st "handle now r st"])
qed

text \<open>
  C1, as the code has it. The acknowledgment writes \<^verbatim>\<open>status\<close> and \<^verbatim>\<open>deliveredAt\<close>
  whenever the requester is the receiver, whatever the status was. So a second
  acknowledgment of a delivered document by its receiver answers 200 and leaves it
  delivered with every other field as before, but \<open>deliveredAt\<close> becomes the time of
  that call. No run of the handlers takes a document from delivered back to ready.
\<close>

theorem messages_delivered_again_restamps:
  assumes "findOne (\<lambda>m. msg_id m = messageId) (messageQueue st) = Some msg"
      and "msg_status msg = Delivered"
  shows "fst (messages_delivered now messageId (Some (receiverPeerId msg)) st)
           = (200, SuccessMessage ''Message marked as delivered'')
       \<and> findOne (\<lambda>m. msg_id m = messageId)
           (messageQueue (snd (messages_delivered now messageId (Some (receiverPeerId msg)) st)))
           = Some (msg\<lparr>deliveredAt := Some now\<rparr>)
       \<and> status_never_back st (run evs st)"
proof -
  let ?P = "\<lambda>m. msg_id m = messageId"
  let ?f = "\<lambda>m. m\<lparr>msg_status := Delivered, deliveredAt := Some now\<rparr>"
  have p: "?P msg" using findOne_Some_holds[OF assms(1)] by simp
  have "findOne ?P (snd (findOneAndUpdate ?P ?f (messageQueue st))) = Some (?f msg)"
    by (rule findOne_after_update[OF assms(1)]) (use p in simp)
  moreover have "?f msg = msg\<lparr>deliveredAt := Some now\<rparr>" using assms(2) by simp
  ultimately show ?thesis using assms(1)
    by (simp add: messages_delivered_def status_never_back_run)
qed

theorem messages_delivered_again_restamps_witness:
  "findOne (\<lambda>m. msg_id m = 1) (messageQueue db_delivered)
     = Some (doc_pdf\<lparr>msg_status := Delivered, deliveredAt := Some 2000\<rparr>)
   \<and> msg_status (doc_pdf\<lparr>msg_status := Delivered, deliveredAt := Some 2000\<rparr>) = Delivered
   \<and> fst (messages_delivered 9000 1 (Some ''p2'') db_delivered)
       = (200, SuccessMessage ''Message marked as delivered'')
   \<and> findOne (\<lambda>m. msg_id m = 1)
        (messageQueue (snd (messages_delivered 9000 1 (Some ''p2'') db_delivered)))
       = Some (doc_pdf\<lparr>msg_status := Delivered, deliveredAt := Some 9000\<rparr>)
   \<and> status_never_back db_delivered (run [(9000, PostDelivered 1 (Some ''p2''))] db_delivered)"
proof -
  let ?d = "doc_pdf\<lparr>msg_status := Delivered, deliveredAt := Some 2000\<rparr>"
  have h1: "findOne (\<lambda>m. msg_id m = 1) (messageQueue db_delivered) = Some ?d"
    by (simp add: example_defs findOne_def)
  have h2: "msg_status ?d = Delivered" by simp
  have r: "receiverPeerId ?d = ''p2''" by (simp add: example_defs)
  have e: "?d\<lparr>deliveredAt := Some 9000\<rparr> = doc_pdf\<lparr>msg_status := Delivered, deliveredAt := Some 9000\<rparr>"
    by simp
  show ?thesis
    using h1 h2
      messages_delivered_again_restamps [OF h1 h2, of 9000 "[(9000, PostDelivered 1 (Some ''p2''))]"]
    unfolding r e by blast
qed

text \<open>
  The claim as the spec words it fails: the document was delivered at 2000, the receiver
  acknowledges it again at 9000, the answer is 200 and \<open>deliveredAt\<close> is 9000.
\<close>

theorem messages_delivered_again_changes_deliveredAt:
  "map msg_id (messageQueue db_delivered) = [1]
   \<and> map receiverPeerId (messageQueue db_delivered) = [''p2'']
   \<and> map msg_status (messageQueue db_delivered) = [Delivered]
   \<and> map deliveredAt (messageQueue db_delivered) = [Some 2000]
   \<and> fst (messages_delivered 9000 1 (Some ''p2'') db_delivered)
       = (200, SuccessMessage ''Message marked as delivered'')
   \<and> map deliveredAt (messageQueue (snd (messages_delivered 9000 1 (Some ''p2'') db_delivered)))
       = [Some 9000]"
  by (simp add: example_defs findOne_def messages_delivered_def)

section \<open>Offline sharing\<close>

subsection \<open>The upload\<close>

lemma reply_hash_nonempty: "reply_hash r = Some h \<Longrightarrow> h \<noteq> []"
  by (cases r rule: reply_hash.cases) (auto split: if_splits)

lemma pinFileToIPFS_ok:
  "upload_succeeds env h \<Longrightarrow>
   pinFileToIPFS env file st =
     (Inr h, st\<lparr>pinata_posts := pinata_posts st @ [(originalname file, pinata_reply env)]\<rparr>)"
  by (cases "pinata_reply env" rule: reply_hash.cases)
     (auto simp: upload_succeeds_def pinFileToIPFS_def Let_def split: if_splits)

lemma pinFileToIPFS_Inr:
  "pinFileToIPFS env file st = (Inr h, st') \<Longrightarrow> upload_succeeds env h"
  by (cases "pinata_reply env" rule: reply_hash.cases)
     (auto simp: upload_succeeds_def pinFileToIPFS_def Let_def split: if_splits)

lemma pinFileToIPFS_Inl:
  "pinFileToIPFS env file st = (Inl msg, st') \<Longrightarrow>
   (\<exists>posts. st' = st\<lparr>pinata_posts := pinata_posts st @ posts\<rparr>)"
  by (auto simp: pinFileToIPFS_def Let_def split: if_splits axios_result.splits option.splits
           intro: exI[of _ "[]"])

lemma pinned_append:
  "pinned (st\<lparr>pinata_posts := pinata_posts st @ [(f, r)]\<rparr>) =
     pinned st @ (case reply_hash r of None \<Rightarrow> [] | Some h \<Rightarrow> [h])"
  by (simp add: pinned_def map_filter_def split: option.splits)


subsection \<open>The handler by cases\<close>

lemma share_offline_valid:
  assumes "sender \<noteq> []" "sname \<noteq> []" "receiver \<noteq> []"
      and "findOne (\<lambda>u. peerId u = receiver) (users st) = Some usr"
  shows "share_offline env now (Some file) (Some sender) (Some sname) (Some receiver) st =
     (case pinFileToIPFS env file (note_online receiver st) of
        (Inl msg, st2) \<Rightarrow>
          ((500, Error (''IPFS upload failed: '' @ msg)), unlink (path file) (unlink (path file) st2))
      | (Inr hash, st2) \<Rightarrow>
          ((200, Queued hash (''https://gateway.pinata.cloud/ipfs/'' @ hash)),
           unlink (path file)
             (st2\<lparr>messageQueue := messageQueue st2 @
                    [MessageQueue_new (fresh_id (messageQueue st2)) now sender sname receiver hash
                       (originalname file) (file_size file)]\<rparr>)))"
  using assms by (simp add: share_offline_def Let_def split: prod.splits sum.splits)

lemma share_offline_unchanged:
  assumes "req_file = None \<or> \<not> truthy s \<or> \<not> truthy n \<or> \<not> truthy r
           \<or> (\<exists>receiver. r = Some receiver \<and> findOne (\<lambda>u. peerId u = receiver) (users st) = None)"
  shows "snd (share_offline env now req_file s n r st) = st
       \<and> fst (fst (share_offline env now req_file s n r st)) \<in> {400, 404}"
  using assms
  by (cases req_file; cases s; cases n; cases r) (auto simp: share_offline_def)

lemma note_online_fields:
  "users (note_online r st) = users st" "onlineUsers (note_online r st) = onlineUsers st"
  "messageQueue (note_online r st) = messageQueue st" "uploads (note_online r st) = uploads st"
  "pinata_posts (note_online r st) = pinata_posts st"
  by (simp_all add: note_online_def Let_def split: option.splits)

lemma pinned_note_online: "pinned (note_online r st) = pinned st"
  by (simp add: pinned_def note_online_fields)

lemma pinned_unlink: "pinned (unlink p st) = pinned st"
  by (simp add: pinned_def unlink_def)

lemma share_offline_queue:
  fixes env now req_file s n r st
  defines "res \<equiv> share_offline env now req_file s n r st"
  shows "(messageQueue (snd res) = messageQueue st \<and> set (pinned st) \<subseteq> set (pinned (snd res)))
       \<or> (\<exists>h m. upload_succeeds env h \<and> h \<noteq> [] \<and> ipfsHash m = h \<and> msg_status m = Ready
             \<and> messageQueue (snd res) = messageQueue st @ [m]
             \<and> pinned (snd res) = pinned st @ [h]
             \<and> fst (fst res) = 200)"
proof (cases "req_file = None \<or> \<not> truthy s \<or> \<not> truthy n \<or> \<not> truthy r
           \<or> (\<exists>receiver. r = Some receiver \<and> findOne (\<lambda>u. peerId u = receiver) (users st) = None)")
  case True
  from share_offline_unchanged[OF this, of env now] show ?thesis by (simp add: res_def)
next
  case False
  then obtain upl sender sname receiver usr where
    v: "req_file = Some upl" "s = Some sender" "n = Some sname" "r = Some receiver"
       "sender \<noteq> []" "sname \<noteq> []" "receiver \<noteq> []"
       "findOne (\<lambda>u. peerId u = receiver) (users st) = Some usr"
    by (cases req_file; cases s; cases n; cases r) auto
  note eq = share_offline_valid[OF v(5-8), of env now upl]
  obtain out st2 where p: "pinFileToIPFS env upl (note_online receiver st) = (out, st2)"
    by (cases "pinFileToIPFS env upl (note_online receiver st)")
  show ?thesis
  proof (cases out)
    case (Inl msg)
    from pinFileToIPFS_Inl[OF p[unfolded Inl]] obtain posts where
      "st2 = (note_online receiver st)\<lparr>pinata_posts := pinata_posts (note_online receiver st) @ posts\<rparr>"
      by blast
    then have "messageQueue st2 = messageQueue st" "set (pinned st) \<subseteq> set (pinned st2)"
      by (auto simp: note_online_fields pinned_def map_filter_def)
    then show ?thesis using Inl p eq v(1-4)
      by (simp add: res_def unlink_def pinned_def)
  next
    case (Inr h)
    have u: "upload_succeeds env h" using p Inr pinFileToIPFS_Inr by blast
    then have ne: "h \<noteq> []" by (auto simp: upload_succeeds_def dest: reply_hash_nonempty)
    have st2: "st2 = (note_online receiver st)\<lparr>pinata_posts :=
                 pinata_posts (note_online receiver st) @ [(originalname upl, pinata_reply env)]\<rparr>"
      using pinFileToIPFS_ok[OF u, of upl "note_online receiver st"] p Inr by simp
    have pn: "pinned st2 = pinned st @ [h]"
      using u unfolding st2 pinned_append by (simp add: pinned_note_online upload_succeeds_def)
    have mq: "messageQueue st2 = messageQueue st" unfolding st2 by (simp add: note_online_fields)
    let ?m = "MessageQueue_new (fresh_id (messageQueue st2)) now sender sname receiver h
                (originalname upl) (file_size upl)"
    have "ipfsHash ?m = h" "msg_status ?m = Ready" by (simp_all add: MessageQueue_new_def)
    moreover have "messageQueue (snd res) = messageQueue st @ [?m]"
      using Inr p eq v(1-4) mq by (simp add: res_def unlink_def)
    moreover have "pinned (snd res) = pinned st @ [h]"
      using Inr p eq v(1-4) pn by (simp add: res_def unlink_def pinned_def)
    moreover have "fst (fst res) = 200"
      using Inr p eq v(1-4) by (simp add: res_def)
    ultimately show ?thesis using u ne by blast
  qed
qed

lemma share_offline_upload_failed:
  assumes "sender \<noteq> []" "sname \<noteq> []" "receiver \<noteq> []"
      and "findOne (\<lambda>u. peerId u = receiver) (users st) = Some usr"
      and "\<not> (\<exists>h. upload_succeeds env h)"
  shows "fst (fst (share_offline env now (Some upl) (Some sender) (Some sname) (Some receiver) st)) = 500
       \<and> messageQueue (snd (share_offline env now (Some upl) (Some sender) (Some sname) (Some receiver) st))
           = messageQueue st
       \<and> path upl \<notin> set (uploads (snd (share_offline env now (Some upl) (Some sender) (Some sname)
                                          (Some receiver) st)))"
proof -
  obtain out st2 where p: "pinFileToIPFS env upl (note_online receiver st) = (out, st2)"
    by (cases "pinFileToIPFS env upl (note_online receiver st)")
  show ?thesis
  proof (cases out)
    case (Inl msg)
    from pinFileToIPFS_Inl[OF p[unfolded Inl]] obtain posts where
      "st2 = (note_online receiver st)\<lparr>pinata_posts := pinata_posts (note_online receiver st) @ posts\<rparr>"
      by blast
    then have "messageQueue st2 = messageQueue st" by (simp add: note_online_fields)
    then show ?thesis using Inl p share_offline_valid[OF assms(1-4), of env now upl]
      by (simp add: unlink_def)
  next
    case (Inr h)
    with p assms(5) pinFileToIPFS_Inr show ?thesis by blast
  qed
qed

lemma share_offline_queued:
  assumes "sender \<noteq> []" "sname \<noteq> []" "receiver \<noteq> []"
      and "findOne (\<lambda>u. peerId u = receiver) (users st) = Some usr"
      and "upload_succeeds env h"
  shows "fst (share_offline env now (Some upl) (Some sender) (Some sname) (Some receiver) st)
           = (200, Queued h (''https://gateway.pinata.cloud/ipfs/'' @ h))
       \<and> messageQueue (snd (share_offline env now (Some upl) (Some sender) (Some sname)
                                (Some receiver) st))
           = messageQueue st @
               [MessageQueue_new (fresh_id (messageQueue st)) now sender sname receiver h
                  (originalname upl) (file_size upl)]"
  using share_offline_valid[OF assms(1-4), of env now upl]
        pinFileToIPFS_ok[OF assms(5), of upl "note_online receiver st"]
  by (simp add: unlink_def note_online_fields)

lemma share_offline_posted:
  assumes "sender \<noteq> []" "sname \<noteq> []" "receiver \<noteq> []"
      and "findOne (\<lambda>u. peerId u = receiver) (users st) = Some usr"
      and "upload_succeeds env h"
  shows "pinata_posts (snd (share_offline env now (Some upl) (Some sender) (Some sname)
                              (Some receiver) st))
           = pinata_posts st @ [(originalname upl, pinata_reply env)]
       \<and> h \<in> set (pinned (snd (share_offline env now (Some upl) (Some sender) (Some sname)
                                   (Some receiver) st)))"
proof -
  have "pinata_posts (snd (share_offline env now (Some upl) (Some sender) (Some sname)
                              (Some receiver) st))
           = pinata_posts st @ [(originalname upl, pinata_reply env)]"
    using share_offline_valid[OF assms(1-4), of env now upl]
          pinFileToIPFS_ok[OF assms(5), of upl "note_online receiver st"]
    by (simp add: unlink_def note_online_fields)
  moreover have "reply_hash (pinata_reply env) = Some h"
    using assms(5) by (simp add: upload_succeeds_def)
  ultimately show ?thesis by (simp add: pinned_def map_filter_def)
qed


lemma pinFileToIPFS_shape:
  "\<exists>out posts. \<forall>st. pinFileToIPFS env upl st = (out, st\<lparr>pinata_posts := pinata_posts st @ posts\<rparr>)"
proof (cases "truthy (PINATA_API_KEY env)")
  case False
  then show ?thesis
    by (intro exI[of _ "Inl ''IPFS service configuration error''"] exI[of _ "[]"])
       (simp add: pinFileToIPFS_def)
next
  case True
  let ?posts = "[(originalname upl, pinata_reply env)]"
  show ?thesis
  proof (cases "reply_hash (pinata_reply env)")
    case None
    obtain msg where "\<forall>st. pinFileToIPFS env upl st = (Inl msg, st\<lparr>pinata_posts := pinata_posts st @ ?posts\<rparr>)"
      using True None
      by (cases "pinata_reply env" rule: reply_hash.cases)
         (auto simp: pinFileToIPFS_def Let_def split: if_splits)
    then show ?thesis by blast
  next
    case (Some h)
    with True have "upload_succeeds env h" by (simp add: upload_succeeds_def)
    from pinFileToIPFS_ok[OF this, of upl] show ?thesis by blast
  qed
qed

lemma note_online_shape: "\<exists>c. note_online r st = st\<lparr>console := c\<rparr>"
proof (cases "findOne (\<lambda>ou. ou_peerId ou = r \<and> status ou = Online) (onlineUsers st)")
  case None
  then have "note_online r st = st\<lparr>console := console st\<rparr>"
    by (simp add: note_online_def Let_def)
  then show ?thesis by blast
next
  case (Some a)
  then show ?thesis by (auto simp: note_online_def Let_def)
qed

lemma share_offline_presence:
  "fst (share_offline env now req_file s n r (st\<lparr>onlineUsers := ous\<rparr>))
     = fst (share_offline env now req_file s n r st)
   \<and> (snd (share_offline env now req_file s n r (st\<lparr>onlineUsers := ous\<rparr>)))\<lparr>console := c\<rparr>
     = (snd (share_offline env now req_file s n r st))\<lparr>onlineUsers := ous, console := c\<rparr>"
proof (cases "req_file = None \<or> \<not> truthy s \<or> \<not> truthy n \<or> \<not> truthy r
           \<or> (\<exists>receiver. r = Some receiver \<and> findOne (\<lambda>u. peerId u = receiver) (users st) = None)")
  case True
  then have "req_file = None \<or> \<not> truthy s \<or> \<not> truthy n \<or> \<not> truthy r
           \<or> (\<exists>receiver. r = Some receiver \<and>
                 findOne (\<lambda>u. peerId u = receiver) (users (st\<lparr>onlineUsers := ous\<rparr>)) = None)"
    by simp
  from share_offline_unchanged[OF this, of env now] share_offline_unchanged[OF True, of env now]
  have a: "snd (share_offline env now req_file s n r (st\<lparr>onlineUsers := ous\<rparr>)) = st\<lparr>onlineUsers := ous\<rparr>"
    and b: "snd (share_offline env now req_file s n r st) = st" by simp_all
  have "fst (share_offline env now req_file s n r (st\<lparr>onlineUsers := ous\<rparr>))
     = fst (share_offline env now req_file s n r st)"
    using True by (cases req_file; cases s; cases n; cases r) (auto simp: share_offline_def)
  then show ?thesis unfolding a b by simp
next
  case False
  then obtain upl sender sname receiver usr where
    v: "req_file = Some upl" "s = Some sender" "n = Some sname" "r = Some receiver"
       "sender \<noteq> []" "sname \<noteq> []" "receiver \<noteq> []"
       "findOne (\<lambda>u. peerId u = receiver) (users st) = Some usr"
    by (cases req_file; cases s; cases n; cases r) auto
  have u': "findOne (\<lambda>u. peerId u = receiver) (users (st\<lparr>onlineUsers := ous\<rparr>)) = Some usr"
    using v(8) by simp
  note e1 = share_offline_valid[OF v(5-7) u', of env now upl]
  note e2 = share_offline_valid[OF v(5-8), of env now upl]
  obtain out posts where
    p: "\<And>st. pinFileToIPFS env upl st = (out, st\<lparr>pinata_posts := pinata_posts st @ posts\<rparr>)"
    using pinFileToIPFS_shape[of env upl] by blast
  obtain c1 where c1: "note_online receiver (st\<lparr>onlineUsers := ous\<rparr>) = st\<lparr>onlineUsers := ous, console := c1\<rparr>"
    using note_online_shape[of receiver "st\<lparr>onlineUsers := ous\<rparr>"] by auto
  obtain c2 where c2: "note_online receiver st = st\<lparr>console := c2\<rparr>"
    using note_online_shape[of receiver st] by auto
  show ?thesis unfolding v(1-4) e1 e2 p c1 c2
    by (cases out) (simp_all add: unlink_def)
qed

subsection \<open>Blobs stay resolvable\<close>

lemma blobs_resolvable_eq:
  "map ipfsHash (messageQueue st') = map ipfsHash (messageQueue st) \<Longrightarrow>
   pinata_posts st' = pinata_posts st \<Longrightarrow> blobs_resolvable st' = blobs_resolvable st"
  by (simp add: blobs_resolvable_def pinned_def)

lemma blobs_resolvable_share_offline:
  assumes "blobs_resolvable st"
  shows "blobs_resolvable (snd (share_offline env now req_file s n r st))"
  using share_offline_queue[of env now req_file s n r st] assms
  by (auto simp: blobs_resolvable_def list_all_iff)

lemma blobs_resolvable_handle:
  assumes "blobs_resolvable st"
  shows "blobs_resolvable (handle now r st)"
proof (cases r)
  case (PostShareOffline env req_file s n r')
  let ?st0 = "case req_file of None \<Rightarrow> st | Some upl \<Rightarrow> st\<lparr>uploads := path upl # uploads st\<rparr>"
  have "blobs_resolvable ?st0 = blobs_resolvable st"
    by (rule blobs_resolvable_eq) (simp_all split: option.splits)
  with assms have "blobs_resolvable ?st0" by simp
  then show ?thesis unfolding PostShareOffline handle.simps
    by (rule blobs_resolvable_share_offline)
next
  case (PostDelivered messageId p)
  have "blobs_resolvable (snd (messages_delivered now messageId p st)) = blobs_resolvable st"
    by (rule blobs_resolvable_eq)
       (auto simp: messages_delivered_def findOneAndUpdate_map split: option.splits)
  with assms show ?thesis using PostDelivered by simp
next
  case (GetUserStatus pid)
  have "blobs_resolvable (snd (user_status now pid st)) = blobs_resolvable st"
    by (rule blobs_resolvable_eq) (auto simp: user_status_def Let_def split: option.splits)
  with assms show ?thesis using GetUserStatus by simp
next
  case (PostUpdateStatus p u e)
  have "blobs_resolvable (snd (user_update_status now p u e st)) = blobs_resolvable st"
    by (rule blobs_resolvable_eq)
       (auto simp: user_update_status_def split: option.splits prod.splits)
  with assms show ?thesis using PostUpdateStatus by simp
next
  case (PostHeartbeat p u e)
  have "blobs_resolvable (snd (user_heartbeat now p u e st)) = blobs_resolvable st"
    by (rule blobs_resolvable_eq) (auto simp: user_heartbeat_def split: option.splits)
  with assms show ?thesis using PostHeartbeat by simp
next
  case (PostMarkOffline p)
  have "blobs_resolvable (snd (user_mark_offline now p st)) = blobs_resolvable st"
    by (rule blobs_resolvable_eq)
       (auto simp: user_mark_offline_def split: option.splits prod.splits)
  with assms show ?thesis using PostMarkOffline by simp
next
  case (GetPendingMessages pid)
  with assms show ?thesis by (simp add: messages_pending_def Let_def)
next
  case (SocketUserOnline userData)
  have "blobs_resolvable (snd (socket_user_online now userData (None, st))) = blobs_resolvable st"
    by (rule blobs_resolvable_eq) (auto simp: socket_user_online_def)
  with assms show ?thesis using SocketUserOnline by simp
next
  case (SocketHeartbeat currentUser pid)
  have "blobs_resolvable (socket_heartbeat now currentUser pid st) = blobs_resolvable st"
    by (rule blobs_resolvable_eq) (auto simp: socket_heartbeat_def split: option.splits)
  with assms show ?thesis using SocketHeartbeat by simp
qed

lemma blobs_resolvable_run: "blobs_resolvable st \<Longrightarrow> blobs_resolvable (run evs st)"
proof (induction evs arbitrary: st)
  case Nil
  then show ?case by simp
next
  case (Cons ev evs)
  obtain now r where ev: "ev = (now, r)" by (cases ev)
  from Cons.prems have "blobs_resolvable (handle now r st)" by (rule blobs_resolvable_handle)
  then have "blobs_resolvable (run evs (handle now r st))" by (rule Cons.IH)
  then show ?case by (simp add: ev)
qed

subsection \<open>The claims on offline sharing\<close>

text \<open>
  C6. Whatever the request, the queue after \<open>share_offline\<close> is the queue before, or
  the queue before with one document appended whose \<open>ipfsHash\<close> is the non-empty hash
  of a successful upload that Pinata has acknowledged, and then the answer is 200. When
  a well-formed request to a registered receiver has its upload fail (no API key,
  \<^verbatim>\<open>axios.post\<close> throws, or the reply has no hash), the answer is 500, the queue is
  unchanged and the received file is no longer in the uploads directory. Over every run
  of the handlers, all queued documents keep referring to acknowledged blobs.
\<close>

theorem share_offline_record_only_after_upload:
  "(messageQueue (snd (share_offline env now req_file s n r st)) = messageQueue st
    \<or> (\<exists>h m. upload_succeeds env h \<and> h \<noteq> [] \<and> ipfsHash m = h
         \<and> messageQueue (snd (share_offline env now req_file s n r st)) = messageQueue st @ [m]
         \<and> h \<in> set (pinned (snd (share_offline env now req_file s n r st)))
         \<and> fst (fst (share_offline env now req_file s n r st)) = 200))
   \<and> (\<forall>upl sender sname receiver usr.
         req_file = Some upl \<and> s = Some sender \<and> n = Some sname \<and> r = Some receiver
         \<and> sender \<noteq> [] \<and> sname \<noteq> [] \<and> receiver \<noteq> []
         \<and> findOne (\<lambda>u. peerId u = receiver) (users st) = Some usr
         \<and> \<not> (\<exists>h. upload_succeeds env h) \<longrightarrow>
         fst (fst (share_offline env now req_file s n r st)) = 500
         \<and> messageQueue (snd (share_offline env now req_file s n r st)) = messageQueue st
         \<and> path upl \<notin> set (uploads (snd (share_offline env now req_file s n r st))))
   \<and> (blobs_resolvable st \<longrightarrow> blobs_resolvable (run evs st))"
proof (intro conjI)
  show "messageQueue (snd (share_offline env now req_file s n r st)) = messageQueue st
    \<or> (\<exists>h m. upload_succeeds env h \<and> h \<noteq> [] \<and> ipfsHash m = h
         \<and> messageQueue (snd (share_offline env now req_file s n r st)) = messageQueue st @ [m]
         \<and> h \<in> set (pinned (snd (share_offline env now req_file s n r st)))
         \<and> fst (fst (share_offline env now req_file s n r st)) = 200)"
    using share_offline_queue[of env now req_file s n r st] by auto
next
  show "\<forall>upl sender sname receiver usr.
         req_file = Some upl \<and> s = Some sender \<and> n = Some sname \<and> r = Some receiver
         \<and> sender \<noteq> [] \<and> sname \<noteq> [] \<and> receiver \<noteq> []
         \<and> findOne (\<lambda>u. peerId u = receiver) (users st) = Some usr
         \<and> \<not> (\<exists>h. upload_succeeds env h) \<longrightarrow>
         fst (fst (share_offline env now req_file s n r st)) = 500
         \<and> messageQueue (snd (share_offline env now req_file s n r st)) = messageQueue st
         \<and> path upl \<notin> set (uploads (snd (share_offline env now req_file s n r st)))"
    using share_offline_upload_failed by blast
next
  show "blobs_resolvable st \<longrightarrow> blobs_resolvable (run evs st)"
    using blobs_resolvable_run by blast
qed

theorem share_offline_record_only_after_upload_witness:
  "findOne (\<lambda>u. peerId u = ''p2'') (users db_uploaded) = Some bob
   \<and> \<not> (\<exists>h. upload_succeeds pinata_down h)
   \<and> path notes_txt \<in> set (uploads db_uploaded)
   \<and> fst (fst (share_offline pinata_down 4000 (Some notes_txt) (Some ''p1'') (Some ''alice'')
                  (Some ''p2'') db_uploaded)) = 500
   \<and> messageQueue (snd (share_offline pinata_down 4000 (Some notes_txt) (Some ''p1'')
                          (Some ''alice'') (Some ''p2'') db_uploaded)) = messageQueue db_uploaded
   \<and> path notes_txt \<notin> set (uploads (snd (share_offline pinata_down 4000 (Some notes_txt)
                                   (Some ''p1'') (Some ''alice'') (Some ''p2'') db_uploaded)))
   \<and> blobs_resolvable db_uploaded
   \<and> blobs_resolvable
        (run [(4000, PostShareOffline pinata_ok (Some notes_txt) (Some ''p1'') (Some ''alice'')
                       (Some ''p2'')),
              (5000, PostDelivered 2 (Some ''p2''))] db_uploaded)"
proof -
  have h1: "findOne (\<lambda>u. peerId u = ''p2'') (users db_uploaded) = Some bob"
    by (simp add: example_defs findOne_def)
  have h2: "\<not> (\<exists>h. upload_succeeds pinata_down h)"
    by (simp add: upload_succeeds_def pinata_down_def)
  have h3: "path notes_txt \<in> set (uploads db_uploaded)"
    by (simp add: example_defs)
  have h4: "blobs_resolvable db_uploaded"
    by (simp add: blobs_resolvable_def pinned_def map_filter_def example_defs)
  have ne: "''p1'' \<noteq> []" "''alice'' \<noteq> []" "''p2'' \<noteq> []" by simp_all
  note t = share_offline_record_only_after_upload
             [where env = pinata_down and now = 4000 and req_file = "Some notes_txt"
                and s = "Some ''p1''" and n = "Some ''alice''" and r = "Some ''p2''"
                and st = db_uploaded
                and evs = "[(4000, PostShareOffline pinata_ok (Some notes_txt) (Some ''p1'')
                                     (Some ''alice'') (Some ''p2'')),
                            (5000, PostDelivered 2 (Some ''p2''))]"]
  show ?thesis using h1 h2 h3 h4 ne t by blast
qed

text \<open>
  C7. A request whose receiver is not in the identity store leaves the whole state as it
  was, so nothing is sent to Pinata and nothing is queued, and it is answered with 400 or
  404; when the file and the three fields are there (anything else is the handler's 400)
  the answer is 404. When the receiver is registered and the upload succeeds, the answer
  is 200 and the queue gains one document, built by the schema from the request, whose
  status is ready.
\<close>

theorem share_offline_receiver_must_exist:
  "((\<forall>receiver. r = Some receiver \<longrightarrow> findOne (\<lambda>u. peerId u = receiver) (users st) = None) \<longrightarrow>
       snd (share_offline env now req_file s n r st) = st
       \<and> fst (fst (share_offline env now req_file s n r st)) \<in> {400, 404})
   \<and> (\<forall>upl sender sname receiver.
         req_file = Some upl \<and> s = Some sender \<and> n = Some sname \<and> r = Some receiver
         \<and> sender \<noteq> [] \<and> sname \<noteq> [] \<and> receiver \<noteq> []
         \<and> findOne (\<lambda>u. peerId u = receiver) (users st) = None \<longrightarrow>
         share_offline env now req_file s n r st = ((404, Error ''Receiver not found''), st))
   \<and> (\<forall>upl sender sname receiver usr h.
         req_file = Some upl \<and> s = Some sender \<and> n = Some sname \<and> r = Some receiver
         \<and> sender \<noteq> [] \<and> sname \<noteq> [] \<and> receiver \<noteq> []
         \<and> findOne (\<lambda>u. peerId u = receiver) (users st) = Some usr
         \<and> upload_succeeds env h \<longrightarrow>
         fst (share_offline env now req_file s n r st)
           = (200, Queued h (''https://gateway.pinata.cloud/ipfs/'' @ h))
         \<and> messageQueue (snd (share_offline env now req_file s n r st))
             = messageQueue st @
                 [MessageQueue_new (fresh_id (messageQueue st)) now sender sname receiver h
                    (originalname upl) (file_size upl)]
         \<and> msg_status (MessageQueue_new (fresh_id (messageQueue st)) now sender sname receiver h
                          (originalname upl) (file_size upl)) = Ready
         \<and> readyAt (MessageQueue_new (fresh_id (messageQueue st)) now sender sname receiver h
                       (originalname upl) (file_size upl)) = now)"
proof (intro conjI impI allI)
  assume a: "\<forall>receiver. r = Some receiver \<longrightarrow> findOne (\<lambda>u. peerId u = receiver) (users st) = None"
  have "req_file = None \<or> \<not> truthy s \<or> \<not> truthy n \<or> \<not> truthy r
           \<or> (\<exists>receiver. r = Some receiver \<and> findOne (\<lambda>u. peerId u = receiver) (users st) = None)"
    using a by (cases r) auto
  from share_offline_unchanged[OF this, of env now]
  show "snd (share_offline env now req_file s n r st) = st"
    and "fst (fst (share_offline env now req_file s n r st)) \<in> {400, 404}" by simp_all
next
  fix upl sender sname receiver
  assume "req_file = Some upl \<and> s = Some sender \<and> n = Some sname \<and> r = Some receiver
         \<and> sender \<noteq> [] \<and> sname \<noteq> [] \<and> receiver \<noteq> []
         \<and> findOne (\<lambda>u. peerId u = receiver) (users st) = None"
  then show "share_offline env now req_file s n r st = ((404, Error ''Receiver not found''), st)"
    by (simp add: share_offline_def)
next
  fix upl sender sname receiver usr h
  assume a: "req_file = Some upl \<and> s = Some sender \<and> n = Some sname \<and> r = Some receiver
         \<and> sender \<noteq> [] \<and> sname \<noteq> [] \<and> receiver \<noteq> []
         \<and> findOne (\<lambda>u. peerId u = receiver) (users st) = Some usr
         \<and> upload_succeeds env h"
  then have v: "sender \<noteq> []" "sname \<noteq> []" "receiver \<noteq> []"
      "findOne (\<lambda>u. peerId u = receiver) (users st) = Some usr" "upload_succeeds env h"
    by simp_all
  have q: "fst (share_offline env now (Some upl) (Some sender) (Some sname) (Some receiver) st)
           = (200, Queued h (''https://gateway.pinata.cloud/ipfs/'' @ h))
       \<and> messageQueue (snd (share_offline env now (Some upl) (Some sender) (Some sname)
                                (Some receiver) st))
           = messageQueue st @
               [MessageQueue_new (fresh_id (messageQueue st)) now sender sname receiver h
                  (originalname upl) (file_size upl)]"
    by (rule share_offline_queued[OF v])
  from q a show "fst (share_offline env now req_file s n r st)
           = (200, Queued h (''https://gateway.pinata.cloud/ipfs/'' @ h))" by simp
  from q a show "messageQueue (snd (share_offline env now req_file s n r st))
             = messageQueue st @
                 [MessageQueue_new (fresh_id (messageQueue st)) now sender sname receiver h
                    (originalname upl) (file_size upl)]" by simp
  show "msg_status (MessageQueue_new (fresh_id (messageQueue st)) now sender sname receiver h
                          (originalname upl) (file_size upl)) = Ready"
    by (simp add: MessageQueue_new_def)
  show "readyAt (MessageQueue_new (fresh_id (messageQueue st)) now sender sname receiver h
                       (originalname upl) (file_size upl)) = now"
    by (simp add: MessageQueue_new_def)
qed

text \<open>\<open>p1\<close> sends \<^verbatim>\<open>notes.txt\<close> to the unknown \<open>p9\<close>, and then to \<open>p2\<close>.\<close>

theorem share_offline_receiver_must_exist_witness:
  "findOne (\<lambda>u. peerId u = ''p9'') (users db_uploaded) = None
   \<and> share_offline pinata_ok 4000 (Some notes_txt) (Some ''p1'') (Some ''alice'') (Some ''p9'')
       db_uploaded = ((404, Error ''Receiver not found''), db_uploaded)
   \<and> findOne (\<lambda>u. peerId u = ''p2'') (users db_uploaded) = Some bob
   \<and> upload_succeeds pinata_ok ''QmNotes''
   \<and> fst (share_offline pinata_ok 4000 (Some notes_txt) (Some ''p1'') (Some ''alice'') (Some ''p2'')
            db_uploaded)
       = (200, Queued ''QmNotes'' ''https://gateway.pinata.cloud/ipfs/QmNotes'')
   \<and> messageQueue (snd (share_offline pinata_ok 4000 (Some notes_txt) (Some ''p1'') (Some ''alice'')
                          (Some ''p2'') db_uploaded))
       = [doc_pdf, MessageQueue_new 2 4000 ''p1'' ''alice'' ''p2'' ''QmNotes'' ''notes.txt'' 12]"
proof -
  have h1: "findOne (\<lambda>u. peerId u = ''p9'') (users db_uploaded) = None"
    by (simp add: example_defs findOne_def)
  have h2: "findOne (\<lambda>u. peerId u = ''p2'') (users db_uploaded) = Some bob"
    by (simp add: example_defs findOne_def)
  have h3: "upload_succeeds pinata_ok ''QmNotes''"
    by (simp add: upload_succeeds_def pinata_ok_def)
  have ne: "''p1'' \<noteq> []" "''alice'' \<noteq> []" "''p2'' \<noteq> []" "''p9'' \<noteq> []" by simp_all
  have v: "messageQueue db_uploaded = [doc_pdf]" "fresh_id [doc_pdf] = 2"
          "originalname notes_txt = ''notes.txt''" "file_size notes_txt = 12"
          "''https://gateway.pinata.cloud/ipfs/'' @ ''QmNotes''
             = ''https://gateway.pinata.cloud/ipfs/QmNotes''"
    by (simp_all add: example_defs fresh_id_def)
  have a: "share_offline pinata_ok 4000 (Some notes_txt) (Some ''p1'') (Some ''alice'') (Some ''p9'')
       db_uploaded = ((404, Error ''Receiver not found''), db_uploaded)"
    using share_offline_receiver_must_exist
            [where r = "Some ''p9''" and st = db_uploaded and env = pinata_ok and now = 4000
               and req_file = "Some notes_txt" and s = "Some ''p1''" and n = "Some ''alice''"]
          h1 by simp
  have b: "fst (share_offline pinata_ok 4000 (Some notes_txt) (Some ''p1'') (Some ''alice'')
                  (Some ''p2'') db_uploaded)
            = (200, Queued ''QmNotes'' (''https://gateway.pinata.cloud/ipfs/'' @ ''QmNotes''))
         \<and> messageQueue (snd (share_offline pinata_ok 4000 (Some notes_txt) (Some ''p1'')
                                  (Some ''alice'') (Some ''p2'') db_uploaded))
            = messageQueue db_uploaded @
                [MessageQueue_new (fresh_id (messageQueue db_uploaded)) 4000 ''p1'' ''alice'' ''p2''
                   ''QmNotes'' (originalname notes_txt) (file_size notes_txt)]"
    using share_offline_receiver_must_exist
            [where r = "Some ''p2''" and st = db_uploaded and env = pinata_ok and now = 4000
               and req_file = "Some notes_txt" and s = "Some ''p1''" and n = "Some ''alice''"]
          h2 h3 by simp
  show ?thesis using h1 h2 h3 a b unfolding v by simp
qed

text \<open>
  C9. The answer of \<open>share_offline\<close> and every part of the resulting state but the
  console are the same whatever the presence collection holds, and the presence
  collection is left as it was. Whatever the presence collection holds, so also when the
  receiver is stored as online, a well-formed request to a registered receiver whose
  upload succeeds is answered 200, its file has been posted to Pinata and the returned
  hash is among the acknowledged ones, and the queue gains a ready document for the
  receiver with that hash.
\<close>

theorem share_offline_ignores_presence:
  "fst (share_offline env now req_file s n r (st\<lparr>onlineUsers := ous\<rparr>))
     = fst (share_offline env now req_file s n r st)
   \<and> (snd (share_offline env now req_file s n r (st\<lparr>onlineUsers := ous\<rparr>)))\<lparr>console := c\<rparr>
     = (snd (share_offline env now req_file s n r st))\<lparr>onlineUsers := ous, console := c\<rparr>
   \<and> (\<forall>upl sender sname receiver usr h.
         req_file = Some upl \<and> s = Some sender \<and> n = Some sname \<and> r = Some receiver
         \<and> sender \<noteq> [] \<and> sname \<noteq> [] \<and> receiver \<noteq> []
         \<and> findOne (\<lambda>u. peerId u = receiver) (users st) = Some usr
         \<and> upload_succeeds env h \<longrightarrow>
         (\<exists>m. fst (share_offline env now req_file s n r st)
                 = (200, Queued h (''https://gateway.pinata.cloud/ipfs/'' @ h))
             \<and> pinata_posts (snd (share_offline env now req_file s n r st))
                 = pinata_posts st @ [(originalname upl, pinata_reply env)]
             \<and> h \<in> set (pinned (snd (share_offline env now req_file s n r st)))
             \<and> messageQueue (snd (share_offline env now req_file s n r st)) = messageQueue st @ [m]
             \<and> msg_status m = Ready \<and> receiverPeerId m = receiver \<and> ipfsHash m = h))"
proof (intro conjI allI impI)
  show "fst (share_offline env now req_file s n r (st\<lparr>onlineUsers := ous\<rparr>))
     = fst (share_offline env now req_file s n r st)"
    using share_offline_presence by blast
  show "(snd (share_offline env now req_file s n r (st\<lparr>onlineUsers := ous\<rparr>)))\<lparr>console := c\<rparr>
     = (snd (share_offline env now req_file s n r st))\<lparr>onlineUsers := ous, console := c\<rparr>"
    using share_offline_presence by blast
next
  fix upl sender sname receiver usr h
  assume a: "req_file = Some upl \<and> s = Some sender \<and> n = Some sname \<and> r = Some receiver
         \<and> sender \<noteq> [] \<and> sname \<noteq> [] \<and> receiver \<noteq> []
         \<and> findOne (\<lambda>u. peerId u = receiver) (users st) = Some usr
         \<and> upload_succeeds env h"
  let ?m = "MessageQueue_new (fresh_id (messageQueue st)) now sender sname receiver h
              (originalname upl) (file_size upl)"
  let ?res = "share_offline env now (Some upl) (Some sender) (Some sname) (Some receiver) st"
  from a have v: "sender \<noteq> []" "sname \<noteq> []" "receiver \<noteq> []"
      "findOne (\<lambda>u. peerId u = receiver) (users st) = Some usr" "upload_succeeds env h"
    by simp_all
  have q: "fst ?res = (200, Queued h (''https://gateway.pinata.cloud/ipfs/'' @ h))
       \<and> messageQueue (snd ?res) = messageQueue st @ [?m]"
    by (rule share_offline_queued[OF v])
  have p: "pinata_posts (snd ?res) = pinata_posts st @ [(originalname upl, pinata_reply env)]
       \<and> h \<in> set (pinned (snd ?res))"
    by (rule share_offline_posted[OF v])
  have m: "msg_status ?m = Ready \<and> receiverPeerId ?m = receiver \<and> ipfsHash ?m = h"
    by (simp add: MessageQueue_new_def)
  from a have e: "share_offline env now req_file s n r st = ?res" by simp
  show "\<exists>m. fst (share_offline env now req_file s n r st)
                 = (200, Queued h (''https://gateway.pinata.cloud/ipfs/'' @ h))
             \<and> pinata_posts (snd (share_offline env now req_file s n r st))
                 = pinata_posts st @ [(originalname upl, pinata_reply env)]
             \<and> h \<in> set (pinned (snd (share_offline env now req_file s n r st)))
             \<and> messageQueue (snd (share_offline env now req_file s n r st)) = messageQueue st @ [m]
             \<and> msg_status m = Ready \<and> receiverPeerId m = receiver \<and> ipfsHash m = h"
    unfolding e using q p m by blast
qed

text \<open>\<open>p2\<close> sends \<^verbatim>\<open>notes.txt\<close> to \<open>p1\<close>, who is stored as online.\<close>

theorem share_offline_ignores_presence_witness:
  "findOne (\<lambda>u. peerId u = ''p1'') (users db_uploaded) = Some alice
   \<and> findOne (\<lambda>ou. ou_peerId ou = ''p1'' \<and> status ou = Online) (onlineUsers db_uploaded)
       = Some alice_online
   \<and> upload_succeeds pinata_ok ''QmNotes''
   \<and> fst (share_offline pinata_ok 4000 (Some notes_txt) (Some ''p2'') (Some ''bob'') (Some ''p1'')
            db_uploaded)
       = (200, Queued ''QmNotes'' (''https://gateway.pinata.cloud/ipfs/'' @ ''QmNotes''))
   \<and> fst (share_offline pinata_ok 4000 (Some notes_txt) (Some ''p2'') (Some ''bob'') (Some ''p1'')
            (db_uploaded\<lparr>onlineUsers := []\<rparr>))
       = (200, Queued ''QmNotes'' (''https://gateway.pinata.cloud/ipfs/'' @ ''QmNotes''))
   \<and> pinata_posts (snd (share_offline pinata_ok 4000 (Some notes_txt) (Some ''p2'') (Some ''bob'')
                          (Some ''p1'') db_uploaded))
       = pinata_posts db_uploaded @ [(''notes.txt'', AxiosResponse (Some (Some ''QmNotes'')))]
   \<and> ''QmNotes'' \<in> set (pinned (snd (share_offline pinata_ok 4000 (Some notes_txt) (Some ''p2'')
                                        (Some ''bob'') (Some ''p1'') db_uploaded)))
   \<and> map msg_status (messageQueue (snd (share_offline pinata_ok 4000 (Some notes_txt) (Some ''p2'')
                                          (Some ''bob'') (Some ''p1'') db_uploaded)))
       = [Ready, Ready]"
proof -
  have h1: "findOne (\<lambda>u. peerId u = ''p1'') (users db_uploaded) = Some alice"
    by (simp add: example_defs findOne_def)
  have h2: "findOne (\<lambda>ou. ou_peerId ou = ''p1'' \<and> status ou = Online) (onlineUsers db_uploaded)
              = Some alice_online"
    by (simp add: example_defs findOne_def)
  have h3: "upload_succeeds pinata_ok ''QmNotes''"
    by (simp add: upload_succeeds_def pinata_ok_def)
  have q: "map msg_status (messageQueue db_uploaded) = [Ready]"
    by (simp add: example_defs)
  have f: "originalname notes_txt = ''notes.txt''"
          "pinata_reply pinata_ok = AxiosResponse (Some (Some ''QmNotes''))"
    by (simp_all add: example_defs)
  note t = share_offline_ignores_presence
             [where env = pinata_ok and now = 4000 and req_file = "Some notes_txt"
                and s = "Some ''p2''" and n = "Some ''bob''" and r = "Some ''p1''"
                and st = db_uploaded and ous = "[]" and c = "[]"]
  let ?on = "share_offline pinata_ok 4000 (Some notes_txt) (Some ''p2'') (Some ''bob'') (Some ''p1'')
               db_uploaded"
  let ?off = "share_offline pinata_ok 4000 (Some notes_txt) (Some ''p2'') (Some ''bob'') (Some ''p1'')
                (db_uploaded\<lparr>onlineUsers := []\<rparr>)"
  from t have same: "fst ?off = fst ?on" by (rule conjunct1)
  from t h1 h3 have
    "\<exists>m. fst ?on = (200, Queued ''QmNotes'' (''https://gateway.pinata.cloud/ipfs/'' @ ''QmNotes''))
        \<and> pinata_posts (snd ?on)
            = pinata_posts db_uploaded @ [(originalname notes_txt, pinata_reply pinata_ok)]
        \<and> ''QmNotes'' \<in> set (pinned (snd ?on))
        \<and> messageQueue (snd ?on) = messageQueue db_uploaded @ [m]
        \<and> msg_status m = Ready \<and> receiverPeerId m = ''p1'' \<and> ipfsHash m = ''QmNotes''"
    by simp
  then obtain m where
    m: "fst ?on = (200, Queued ''QmNotes'' (''https://gateway.pinata.cloud/ipfs/'' @ ''QmNotes''))"
       "pinata_posts (snd ?on)
          = pinata_posts db_uploaded @ [(originalname notes_txt, pinata_reply pinata_ok)]"
       "''QmNotes'' \<in> set (pinned (snd ?on))"
       "messageQueue (snd ?on) = messageQueue db_uploaded @ [m]"
       "msg_status m = Ready"
    by blast
  have o: "fst ?off = (200, Queued ''QmNotes'' (''https://gateway.pinata.cloud/ipfs/'' @ ''QmNotes''))"
    using same m(1) by (rule trans)
  have st: "map msg_status (messageQueue (snd ?on)) = [Ready, Ready]"
    unfolding m(4) using q m(5) by simp
  show ?thesis using h1 h2 h3 m(1) o m(2)[unfolded f] m(3) st by (intro conjI)
qed

end
